theory Spec2Isabelle
  imports Main "HOL-Library.AList"
begin

section \<open>Python values\<close>

text \<open>
  The client of \<^verbatim>\<open>fortiosapi.py\<close> moves untyped Python values around: payloads,
  decoded JSON bodies, identity keys, query parameters. They are modelled by one datatype.
  Dictionaries are association lists in insertion order, as Python keeps them. Numbers
  with a fraction or an exponent are not modelled.
\<close>

datatype pykey = KNone | KBool bool | KInt int | KStr string

datatype pyval =
    VNone
  | VBool bool
  | VInt int
  | VStr string
  | VList "pyval list"
  | VDict "(pykey \<times> pyval) list"

type_synonym pydict = "(pykey \<times> pyval) list"

datatype error =
    NotLogged
  | InvalidLicense
  | PyException string
  | KeyError
  | TypeError
  | IndexError
  | AttributeError
  | ValueError
  | UnicodeDecodeError
  | TransportError

text \<open>Python hashes \<^verbatim>\<open>True\<close> like \<^verbatim>\<open>1\<close> and \<^verbatim>\<open>False\<close> like \<^verbatim>\<open>0\<close>: as
  dictionary keys they are the same key.\<close>

fun knorm :: "pykey \<Rightarrow> pykey" where
  "knorm (KBool b) = KInt (if b then 1 else 0)"
| "knorm k = k"

definition keq :: "pykey \<Rightarrow> pykey \<Rightarrow> bool" where
  "keq a b = (knorm a = knorm b)"

fun dict_get :: "pykey \<Rightarrow> pydict \<Rightarrow> pyval option" where
  "dict_get k [] = None"
| "dict_get k ((k', v) # d) = (if keq k' k then Some v else dict_get k d)"

text \<open>\<^verbatim>\<open>d[k] = v\<close>: an existing entry keeps its place and its key object, a new one goes
  last.\<close>

fun dict_set :: "pykey \<Rightarrow> pyval \<Rightarrow> pydict \<Rightarrow> pydict" where
  "dict_set k v [] = [(k, v)]"
| "dict_set k v ((k', v') # d) =
     (if keq k' k then (k', v) # d else (k', v') # dict_set k v d)"

text \<open>Truth value of a Python object in \<^verbatim>\<open>if x:\<close> and \<^verbatim>\<open>if not x:\<close>.\<close>

fun truthy :: "pyval \<Rightarrow> bool" where
  "truthy VNone = False"
| "truthy (VBool b) = b"
| "truthy (VInt i) = (i \<noteq> 0)"
| "truthy (VStr s) = (s \<noteq> [])"
| "truthy (VList xs) = (xs \<noteq> [])"
| "truthy (VDict d) = (d \<noteq> [])"

text \<open>A value used as a dictionary key: lists and dictionaries are unhashable.\<close>

fun to_key :: "pyval \<Rightarrow> pykey option" where
  "to_key VNone = Some KNone"
| "to_key (VBool b) = Some (KBool b)"
| "to_key (VInt i) = Some (KInt i)"
| "to_key (VStr s) = Some (KStr s)"
| "to_key (VList xs) = None"
| "to_key (VDict d) = None"

fun of_key :: "pykey \<Rightarrow> pyval" where
  "of_key KNone = VNone"
| "of_key (KBool b) = VBool b"
| "of_key (KInt i) = VInt i"
| "of_key (KStr s) = VStr s"

text \<open>Indexing a sequence of length \<open>n\<close> with \<open>i\<close>: negative indices count from the end.\<close>

definition seq_index :: "nat \<Rightarrow> int \<Rightarrow> nat option" where
  "seq_index n i =
     (let j = (if i < 0 then int n + i else i)
      in if 0 \<le> j \<and> j < int n then Some (nat j) else None)"

text \<open>\<^verbatim>\<open>obj[key]\<close>.\<close>

fun subscript :: "pyval \<Rightarrow> pyval \<Rightarrow> error + pyval" where
  "subscript (VDict d) k =
     (case to_key k of
        None \<Rightarrow> Inl TypeError
      | Some kk \<Rightarrow> (case dict_get kk d of None \<Rightarrow> Inl KeyError | Some v \<Rightarrow> Inr v))"
| "subscript (VList xs) (VInt i) =
     (case seq_index (length xs) i of None \<Rightarrow> Inl IndexError | Some j \<Rightarrow> Inr (xs ! j))"
| "subscript (VList xs) (VBool b) =
     (case seq_index (length xs) (if b then 1 else 0) of
        None \<Rightarrow> Inl IndexError | Some j \<Rightarrow> Inr (xs ! j))"
| "subscript (VStr s) (VInt i) =
     (case seq_index (length s) i of None \<Rightarrow> Inl IndexError | Some j \<Rightarrow> Inr (VStr [s ! j]))"
| "subscript (VStr s) (VBool b) =
     (case seq_index (length s) (if b then 1 else 0) of
        None \<Rightarrow> Inl IndexError | Some j \<Rightarrow> Inr (VStr [s ! j]))"
| "subscript _ _ = Inl TypeError"

text \<open>\<^verbatim>\<open>obj[key] = v\<close>; the updated object is returned.\<close>

fun setitem :: "pyval \<Rightarrow> pyval \<Rightarrow> pyval \<Rightarrow> error + pyval" where
  "setitem (VDict d) k v =
     (case to_key k of None \<Rightarrow> Inl TypeError | Some kk \<Rightarrow> Inr (VDict (dict_set kk v d)))"
| "setitem (VList xs) (VInt i) v =
     (case seq_index (length xs) i of
        None \<Rightarrow> Inl IndexError | Some j \<Rightarrow> Inr (VList (xs[j := v])))"
| "setitem (VList xs) (VBool b) v =
     (case seq_index (length xs) (if b then 1 else 0) of
        None \<Rightarrow> Inl IndexError | Some j \<Rightarrow> Inr (VList (xs[j := v])))"
| "setitem _ _ _ = Inl TypeError"

text \<open>\<^verbatim>\<open>x == n\<close> for an integer literal \<open>n\<close>, and \<^verbatim>\<open>x == "..."\<close> for a string literal.\<close>

fun py_eq_int :: "pyval \<Rightarrow> int \<Rightarrow> bool" where
  "py_eq_int (VInt i) n = (i = n)"
| "py_eq_int (VBool b) n = ((if b then 1 else 0) = n)"
| "py_eq_int _ n = False"

fun py_eq_str :: "pyval \<Rightarrow> string \<Rightarrow> bool" where
  "py_eq_str (VStr s) t = (s = t)"
| "py_eq_str _ t = False"

fun is_dict :: "pyval \<Rightarrow> bool" where
  "is_dict (VDict d) = True"
| "is_dict _ = False"

subsection \<open>Strings\<close>

definition startswith :: "string \<Rightarrow> string \<Rightarrow> bool" where
  "startswith s p = (take (length p) s = p)"

fun contains :: "string \<Rightarrow> string \<Rightarrow> bool" where
  "contains [] p = (p = [])"
| "contains (c # s) p = (startswith (c # s) p \<or> contains s p)"

definition digit_char :: "nat \<Rightarrow> char" where
  "digit_char n = ''0123456789ABCDEF'' ! n"

fun str_nat :: "nat \<Rightarrow> string" where
  "str_nat n = (if n < 10 then [digit_char n] else str_nat (n div 10) @ [digit_char (n mod 10)])"

declare str_nat.simps [simp del]

definition str_int :: "int \<Rightarrow> string" where
  "str_int i = (if i < 0 then CHR ''-'' # str_nat (nat (- i)) else str_nat (nat i))"

text \<open>\<^verbatim>\<open>urllib.parse.quote(s, safe=...)\<close> on a byte string: letters, digits and
  \<^verbatim>\<open>_.-~\<close> stay, as do the characters of \<open>safe\<close>; every other byte becomes \<^verbatim>\<open>%XX\<close>.\<close>

definition always_safe :: string where
  "always_safe = ''ABCDEFGHIJKLMNOPQRSTUVWXYZabcdefghijklmnopqrstuvwxyz0123456789_.-~''"

definition quote_char :: "string \<Rightarrow> char \<Rightarrow> string" where
  "quote_char safe c =
     (if List.member (always_safe @ safe) c then [c]
      else [CHR ''%'', digit_char (of_char c div 16), digit_char (of_char c mod 16)])"

definition quote :: "string \<Rightarrow> string \<Rightarrow> string" where
  "quote safe s = concat (map (quote_char safe) s)"

section \<open>The wire\<close>

datatype verb = GET | POST | PUT | DELETE

text \<open>What a request carries as \<^verbatim>\<open>data=\<close>: nothing, a string (the login form), the
  \<^verbatim>\<open>json.dumps\<close> of a value, or a value handed to the transport as it is (upload).\<close>

datatype body = NoBody | TextBody string | JsonBody pyval | RawBody pyval

record request =
  rq_verb :: verb
  rq_url :: string
  rq_params :: pyval
  rq_body :: body
  rq_files :: pyval
  rq_timeout :: pyval
  rq_headers :: "(string \<times> string) list"

text \<open>A response of the appliance. \<open>ascii_text\<close> is \<^verbatim>\<open>content.decode("ascii")\<close> and
  \<open>json_body\<close> is \<^verbatim>\<open>json.loads(content.decode("utf-8"))\<close>; each is \<open>None\<close> where the
  Python raises.\<close>

record response =
  status_code :: int
  ascii_text :: "string option"
  json_body :: "pyval option"
  set_cookies :: "(string \<times> string) list"

text \<open>What the operations hand back: a decoded value, or the raw response object.\<close>

datatype pyobj = Val pyval | Raw response

fun subscript_obj :: "pyobj \<Rightarrow> pyval \<Rightarrow> error + pyval" where
  "subscript_obj (Val v) k = subscript v k"
| "subscript_obj (Raw r) k = Inl TypeError"

text \<open>The environment of a client: the appliance, which answers a request knowing what
  was exchanged before (\<open>None\<close>: the transport raises), and Python's \<^verbatim>\<open>repr\<close> of
  lists and dictionaries, which \<^verbatim>\<open>str\<close> falls back to.\<close>

record env =
  server :: "(request \<times> response option) list \<Rightarrow> request \<Rightarrow> response option"
  py_repr :: "pyval \<Rightarrow> string"

fun pystr :: "env \<Rightarrow> pyval \<Rightarrow> string" where
  "pystr E VNone = ''None''"
| "pystr E (VBool b) = (if b then ''True'' else ''False'')"
| "pystr E (VInt i) = str_int i"
| "pystr E (VStr s) = s"
| "pystr E v = py_repr E v"

section \<open>The client object\<close>

text \<open>
  The fields of \<^verbatim>\<open>FortiOSAPI\<close>, the header and cookie stores of its
  \<^verbatim>\<open>requests\<close> session, the exchanges with the appliance so far, and the dictionary
  object that \<^verbatim>\<open>move\<close> has as the default of its \<^verbatim>\<open>parameters\<close> argument (one
  object, made when the function is defined). \<open>https_mode\<close>, \<open>logged\<close>, \<open>fortiversion\<close>,
  \<open>apitoken\<close> and \<open>license_state\<close> are \<^verbatim>\<open>_https\<close>, \<^verbatim>\<open>_logged\<close>,
  \<^verbatim>\<open>_fortiversion\<close>, \<^verbatim>\<open>_apitoken\<close> and \<^verbatim>\<open>_license\<close>; \<open>verify\<close>,
  \<open>session_cert\<close>, \<open>headers\<close> and \<open>cookies\<close> belong to \<^verbatim>\<open>_session\<close>. A cookie is a
  name and a value, both strings, and a cookie that is set again replaces the one of that
  name. The session object itself is always there: Python takes a \<^verbatim>\<open>requests\<close> session
  as true, so the branch \<^verbatim>\<open>if not self._session\<close> of \<^verbatim>\<open>login\<close> and
  \<^verbatim>\<open>tokenlogin\<close> is never taken.
\<close>

record state =
  host :: "string option"
  https_mode :: bool
  logged :: bool
  fortiversion :: pyval
  verify :: pyval
  session_cert :: pyval
  timeout :: pyval
  cert :: pyval
  apitoken :: pyval
  license_state :: "string option"
  url_prefix :: "string option"
  headers :: "(string \<times> string) list"
  cookies :: "(string \<times> string) list"
  exchanges :: "(request \<times> response option) list"
  move_parameters :: pydict

type_synonym 'a action = "state \<Rightarrow> (error + 'a) \<times> state"

definition ret :: "'a \<Rightarrow> 'a action" where
  "ret x s = (Inr x, s)"

definition raise :: "error \<Rightarrow> 'a action" where
  "raise e s = (Inl e, s)"

definition lift :: "error + 'a \<Rightarrow> 'a action" where
  "lift r s = (r, s)"

definition bind :: "'a action \<Rightarrow> ('a \<Rightarrow> 'b action) \<Rightarrow> 'b action" where
  "bind m f s = (case m s of (Inl e, s') \<Rightarrow> (Inl e, s') | (Inr x, s') \<Rightarrow> f x s')"

text \<open>\<^verbatim>\<open>__init__\<close>. The headers are those a new \<^verbatim>\<open>requests\<close> session has.\<close>

definition init :: "(string \<times> string) list \<Rightarrow> pydict \<Rightarrow> state" where
  "init default_headers mp =
     \<lparr> host = None, https_mode = True, logged = False,
       fortiversion = VStr ''Version is set when logged'',
       verify = VBool True, session_cert = VNone, timeout = VInt 120, cert = VNone,
       apitoken = VNone, license_state = None, url_prefix = None,
       headers = default_headers, cookies = [], exchanges = [], move_parameters = mp \<rparr>"

text \<open>One call of the \<^verbatim>\<open>requests\<close> session: the request goes out with the session's
  headers, the exchange is recorded, and the cookies of the answer go into the jar.\<close>

definition send :: "env \<Rightarrow> verb \<Rightarrow> string \<Rightarrow> pyval \<Rightarrow> body \<Rightarrow> pyval \<Rightarrow> response action" where
  "send E v url params b files s =
     (let rq = \<lparr> rq_verb = v, rq_url = url, rq_params = params, rq_body = b,
                 rq_files = files, rq_timeout = timeout s, rq_headers = headers s \<rparr>
      in case server E (exchanges s) rq of
           None \<Rightarrow> (Inl TransportError, s\<lparr>exchanges := exchanges s @ [(rq, None)]\<rparr>)
         | Some r \<Rightarrow>
             (Inr r, s\<lparr>exchanges := exchanges s @ [(rq, Some r)],
                       cookies := fold (\<lambda>(n, v). AList.update n v) (set_cookies r) (cookies s)\<rparr>))"

text \<open>The \<^verbatim>\<open>try\<close> block of \<^verbatim>\<open>formatresponse\<close>.\<close>

definition decode_response :: "response \<Rightarrow> string option \<Rightarrow> error + pyval" where
  "decode_response res vdom =
     (case json_body res of
        None \<Rightarrow> Inl ValueError
      | Some j \<Rightarrow>
          if vdom = Some ''global''
          then (case subscript j (VInt 0) of
                  Inl e \<Rightarrow> Inl e
                | Inr resp \<Rightarrow> setitem resp (VStr ''vdom'') (VStr ''global''))
          else Inr j)"

text \<open>\<^verbatim>\<open>formatresponse\<close>. It is also called on a value that is already decoded
  (\<^verbatim>\<open>set\<close> does so): \<^verbatim>\<open>res.content\<close> then raises inside the \<^verbatim>\<open>try\<close> and the
  value comes back as it is.\<close>

definition formatresponse :: "pyobj \<Rightarrow> string option \<Rightarrow> pyobj action" where
  "formatresponse res vdom s =
     (if license_state s = Some ''Invalid'' then (Inl (PyException ''invalid license''), s)
      else case res of
             Val v \<Rightarrow> (Inr (Val v), s)
           | Raw r \<Rightarrow>
               (case decode_response r vdom of
                  Inl e \<Rightarrow> (Inr (Raw r), s)
                | Inr v \<Rightarrow> (Inr (Val v), s)))"

definition check_session :: "unit action" where
  "check_session s =
     (if \<not> logged s then (Inl NotLogged, s)
      else if license_state s = Some ''Invalid'' then (Inl InvalidLicense, s)
      else (Inr (), s))"

definition https :: "string \<Rightarrow> state \<Rightarrow> state" where
  "https status s =
     (let s1 = (if status = ''on'' then s\<lparr>https_mode := True\<rparr> else s)
      in if status = ''off'' then s1\<lparr>https_mode := False\<rparr> else s1)"

fun update_cookie_loop ::
  "(string \<times> string) list \<Rightarrow> (string \<times> string) list \<Rightarrow> (string \<times> string) list" where
  "update_cookie_loop [] hs = hs"
| "update_cookie_loop ((cname, cvalue) # cs) hs =
     update_cookie_loop cs
       (if cname = ''ccsrftoken'' \<or> startswith cname ''ccsrftoken_''
        then AList.update ''X-CSRFTOKEN'' (butlast (tl cvalue)) hs
        else hs)"

definition update_cookie :: "state \<Rightarrow> state" where
  "update_cookie s = s\<lparr>headers := update_cookie_loop (cookies s) (headers s)\<rparr>"


section \<open>URLs, schema and identity keys\<close>

definition vdom_suffix :: "string option \<Rightarrow> string" where
  "vdom_suffix vdom =
     (case vdom of
        None \<Rightarrow> []
      | Some v \<Rightarrow> if v = [] then [] else if v = ''global'' then ''?global=1'' else ''?vdom='' @ v)"

definition cmdb_url :: "env \<Rightarrow> string \<Rightarrow> string \<Rightarrow> string option \<Rightarrow> pyval \<Rightarrow> string action" where
  "cmdb_url E path name vdom mkey =
     bind check_session (\<lambda>_ s.
       let url_postfix = ''/api/v2/cmdb/'' @ path @ ''/'' @ name;
           url_postfix = (if truthy mkey then url_postfix @ ''/'' @ quote [] (pystr E mkey)
                          else url_postfix);
           url_postfix = url_postfix @ vdom_suffix vdom
       in case url_prefix s of
            None \<Rightarrow> (Inl TypeError, s)
          | Some p \<Rightarrow> (Inr (p @ url_postfix), s))"

definition mon_url :: "env \<Rightarrow> string \<Rightarrow> string \<Rightarrow> string option \<Rightarrow> pyval \<Rightarrow> string action" where
  "mon_url E path name vdom mkey =
     bind check_session (\<lambda>_ s.
       let url_postfix = ''/api/v2/monitor/'' @ path @ ''/'' @ name;
           url_postfix = (if truthy mkey then url_postfix @ ''/'' @ quote [] (pystr E mkey)
                          else url_postfix);
           url_postfix = url_postfix @ vdom_suffix vdom
       in case url_prefix s of
            None \<Rightarrow> (Inl TypeError, s)
          | Some p \<Rightarrow> (Inr (p @ url_postfix), s))"

text \<open>\<^verbatim>\<open>json.loads(res.content.decode("utf-8"))\<close> outside any \<^verbatim>\<open>try\<close>.\<close>

definition loads :: "response \<Rightarrow> error + pyval" where
  "loads res = (case json_body res of None \<Rightarrow> Inl ValueError | Some j \<Rightarrow> Inr j)"

definition schema :: "env \<Rightarrow> string \<Rightarrow> string \<Rightarrow> string option \<Rightarrow> pyval action" where
  "schema E path name vdom =
     bind (if vdom = None
           then bind (cmdb_url E path name None VNone) (\<lambda>u. ret (u @ ''?action=schema''))
           else bind (cmdb_url E path name vdom VNone) (\<lambda>u. ret (u @ ''&action=schema'')))
       (\<lambda>url.
     bind (send E GET url VNone NoBody VNone) (\<lambda>res.
       if status_code res = 200 then
         (if vdom = Some ''global''
          then lift (case loads res of
                       Inl e \<Rightarrow> Inl e
                     | Inr j \<Rightarrow> (case subscript j (VInt 0) of
                                   Inl e \<Rightarrow> Inl e
                                 | Inr j0 \<Rightarrow> subscript j0 (VStr ''results'')))
          else lift (case loads res of
                       Inl e \<Rightarrow> Inl e
                     | Inr j \<Rightarrow> subscript j (VStr ''results'')))
       else lift (loads res)))"

definition get_mkeyname :: "env \<Rightarrow> string \<Rightarrow> string \<Rightarrow> string option \<Rightarrow> pyval action" where
  "get_mkeyname E path name vdom =
     bind (schema E path name vdom) (\<lambda>sch.
       case subscript sch (VStr ''mkey'') of
         Inl KeyError \<Rightarrow> ret (VBool False)
       | Inl e \<Rightarrow> raise e
       | Inr keyname \<Rightarrow> ret keyname)"

definition get_mkey :: "env \<Rightarrow> string \<Rightarrow> string \<Rightarrow> pyval \<Rightarrow> string option \<Rightarrow> pyval action" where
  "get_mkey E path name data vdom =
     bind (get_mkeyname E path name vdom) (\<lambda>keyname.
       if \<not> truthy keyname then ret VNone
       else (case subscript data keyname of
               Inl KeyError \<Rightarrow> ret VNone
             | Inl e \<Rightarrow> raise e
             | Inr mkey \<Rightarrow> ret mkey))"

definition get_version :: "pyval action" where
  "get_version = bind check_session (\<lambda>_ s. (Inr (fortiversion s), s))"

section \<open>The operations on the appliance\<close>

definition download :: "env \<Rightarrow> string \<Rightarrow> string \<Rightarrow> string option \<Rightarrow> pyval \<Rightarrow> pyval \<Rightarrow> pyobj action" where
  "download E path name vdom mkey parameters =
     bind (mon_url E path name vdom mkey) (\<lambda>url.
     bind (send E GET url parameters NoBody VNone) (\<lambda>res. ret (Raw res)))"

definition upload ::
  "env \<Rightarrow> string \<Rightarrow> string \<Rightarrow> string option \<Rightarrow> pyval \<Rightarrow> pyval \<Rightarrow> pyval \<Rightarrow> pyval \<Rightarrow> pyobj action" where
  "upload E path name vdom mkey parameters data files =
     bind (mon_url E path name vdom mkey) (\<lambda>url.
     bind (send E POST url parameters (RawBody data) files) (\<lambda>res. ret (Raw res)))"

definition get :: "env \<Rightarrow> string \<Rightarrow> string \<Rightarrow> string option \<Rightarrow> pyval \<Rightarrow> pyval \<Rightarrow> pyobj action" where
  "get E path name vdom mkey parameters =
     bind (cmdb_url E path name vdom mkey) (\<lambda>url.
     bind (send E GET url parameters NoBody VNone) (\<lambda>res.
     formatresponse (Raw res) vdom))"

definition monitor :: "env \<Rightarrow> string \<Rightarrow> string \<Rightarrow> string option \<Rightarrow> pyval \<Rightarrow> pyval \<Rightarrow> pyobj action" where
  "monitor E path name vdom mkey parameters =
     bind (mon_url E path name vdom mkey) (\<lambda>url.
     bind (send E GET url parameters NoBody VNone) (\<lambda>res.
     formatresponse (Raw res) vdom))"

text \<open>\<^verbatim>\<open>get_name_path_dict\<close>: the loop over the schema list. \<^verbatim>\<open>for keys in j\<close> runs
  over the elements of a list, the keys of a dictionary or the characters of a string.\<close>

definition iterate :: "pyval \<Rightarrow> error + pyval list" where
  "iterate v =
     (case v of
        VList xs \<Rightarrow> Inr xs
      | VDict d \<Rightarrow> Inr (map (of_key \<circ> fst) d)
      | VStr s \<Rightarrow> Inr (map (\<lambda>c. VStr [c]) s)
      | _ \<Rightarrow> Inl TypeError)"

text \<open>\<^verbatim>\<open>"__tree__" not in x\<close>. In a list or a dictionary the string is looked for as an
  element or a key; elements that are not strings never equal it.\<close>

definition tree_not_in :: "pyval \<Rightarrow> error + bool" where
  "tree_not_in x =
     (case x of
        VStr s \<Rightarrow> Inr (\<not> contains s ''__tree__'')
      | VList xs \<Rightarrow> Inr (\<not> List.member xs (VStr ''__tree__''))
      | VDict d \<Rightarrow> Inr (dict_get (KStr ''__tree__'') d = None)
      | _ \<Rightarrow> Inl TypeError)"

text \<open>\<^verbatim>\<open>keys["path"] + " " + keys["name"]\<close>: both must be strings (a list on the left
  fails at \<^verbatim>\<open>+ " "\<close>).\<close>

definition path_name :: "pyval \<Rightarrow> error + pyval" where
  "path_name keys =
     (case subscript keys (VStr ''path'') of
        Inl e \<Rightarrow> Inl e
      | Inr p \<Rightarrow>
          (case p of
             VStr ps \<Rightarrow>
               (case subscript keys (VStr ''name'') of
                  Inl e \<Rightarrow> Inl e
                | Inr (VStr ns) \<Rightarrow> Inr (VStr (ps @ '' '' @ ns))
                | Inr _ \<Rightarrow> Inl TypeError)
           | _ \<Rightarrow> Inl TypeError))"

fun name_path_loop :: "pyval list \<Rightarrow> pyval list \<Rightarrow> error + pyval list" where
  "name_path_loop [] acc = Inr acc"
| "name_path_loop (keys # js) acc =
     (case subscript keys (VStr ''path'') of
        Inl e \<Rightarrow> Inl e
      | Inr p \<Rightarrow>
          (case tree_not_in p of
             Inl e \<Rightarrow> Inl e
           | Inr True \<Rightarrow>
               (case path_name keys of
                  Inl e \<Rightarrow> Inl e
                | Inr pn \<Rightarrow> name_path_loop js (acc @ [pn]))
           | Inr False \<Rightarrow> name_path_loop js acc))"

definition get_name_path_dict :: "env \<Rightarrow> string option \<Rightarrow> pyobj action" where
  "get_name_path_dict E vdom s =
     (let url_postfix = ''/api/v2/cmdb/'' @
            (case vdom of
               Some v \<Rightarrow> ''?vdom='' @ v @ ''&action=schema''
             | None \<Rightarrow> ''?action=schema'')
      in case url_prefix s of
           None \<Rightarrow> (Inl TypeError, s)
         | Some p \<Rightarrow>
             bind (send E GET (p @ url_postfix) VNone NoBody VNone) (\<lambda>cmdbschema.
               lift (case loads cmdbschema of
                       Inl e \<Rightarrow> Inl e
                     | Inr body \<Rightarrow>
                         (case subscript body (VStr ''results'') of
                            Inl e \<Rightarrow> Inl e
                          | Inr j \<Rightarrow>
                              (case iterate j of
                                 Inl e \<Rightarrow> Inl e
                               | Inr js \<Rightarrow>
                                   (case name_path_loop js [] of
                                      Inl e \<Rightarrow> Inl e
                                    | Inr out \<Rightarrow> Inr (Val (VList out))))))) s)"

text \<open>\<^verbatim>\<open>post\<close>. \<^verbatim>\<open>data[mkeyname] = mkey\<close> updates the caller's dictionary in place; the
  model shows the updated dictionary as the body of the request.\<close>

definition post ::
  "env \<Rightarrow> string \<Rightarrow> string \<Rightarrow> pyval \<Rightarrow> string option \<Rightarrow> pyval \<Rightarrow> pyval \<Rightarrow> pyobj action" where
  "post E path name data vdom mkey parameters =
     bind (if truthy mkey
           then bind (get_mkeyname E path name vdom) (\<lambda>mkeyname.
                  lift (setitem data mkeyname mkey))
           else ret data) (\<lambda>data.
     bind (cmdb_url E path name vdom VNone) (\<lambda>url.
     bind (send E POST url parameters (JsonBody data) VNone) (\<lambda>res.
     formatresponse (Raw res) vdom)))"

definition execute ::
  "env \<Rightarrow> string \<Rightarrow> string \<Rightarrow> pyval \<Rightarrow> string option \<Rightarrow> pyval \<Rightarrow> pyval \<Rightarrow> pyobj action" where
  "execute E path name data vdom mkey parameters =
     bind (mon_url E path name vdom mkey) (\<lambda>url.
     bind (send E POST url parameters (JsonBody data) VNone) (\<lambda>res.
     formatresponse (Raw res) vdom))"

definition put ::
  "env \<Rightarrow> string \<Rightarrow> string \<Rightarrow> string option \<Rightarrow> pyval \<Rightarrow> pyval \<Rightarrow> pyval \<Rightarrow> pyobj action" where
  "put E path name vdom mkey parameters data =
     bind (if \<not> truthy mkey then get_mkey E path name data vdom else ret mkey) (\<lambda>mkey.
     bind (cmdb_url E path name vdom mkey) (\<lambda>url.
     bind (send E PUT url parameters (JsonBody data) VNone) (\<lambda>res.
     formatresponse (Raw res) vdom)))"

text \<open>\<^verbatim>\<open>move\<close>. With \<open>parameters = None\<close> the argument is left out and the function's
  default object is written to; with \<open>Some p\<close> the caller's object is.\<close>

definition move ::
  "env \<Rightarrow> string \<Rightarrow> string \<Rightarrow> string option \<Rightarrow> pyval \<Rightarrow> pyval \<Rightarrow> pyval \<Rightarrow> pyval option
     \<Rightarrow> pyobj action" where
  "move E path name vdom mkey where_arg reference_key parameters =
     bind (cmdb_url E path name vdom mkey) (\<lambda>url s.
       case parameters of
         None \<Rightarrow>
           (let s1 = s\<lparr>move_parameters :=
                        dict_set (KStr ''action'') (VStr ''move'') (move_parameters s)\<rparr>
            in case to_key where_arg of
                 None \<Rightarrow> (Inl TypeError, s1)
               | Some k \<Rightarrow>
                   (let s2 = s1\<lparr>move_parameters :=
                                 dict_set k (VStr (pystr E reference_key)) (move_parameters s1)\<rparr>
                    in bind (send E PUT url (VDict (move_parameters s2)) NoBody VNone)
                         (\<lambda>res. formatresponse (Raw res) vdom) s2))
       | Some p \<Rightarrow>
           (case setitem p (VStr ''action'') (VStr ''move'') of
              Inl e \<Rightarrow> (Inl e, s)
            | Inr p1 \<Rightarrow>
                (case setitem p1 where_arg (VStr (pystr E reference_key)) of
                   Inl e \<Rightarrow> (Inl e, s)
                 | Inr p2 \<Rightarrow>
                     bind (send E PUT url p2 NoBody VNone)
                       (\<lambda>res. formatresponse (Raw res) vdom) s)))"

definition delete ::
  "env \<Rightarrow> string \<Rightarrow> string \<Rightarrow> string option \<Rightarrow> pyval \<Rightarrow> pyval \<Rightarrow> pyval \<Rightarrow> pyobj action" where
  "delete E path name vdom mkey parameters data =
     bind (if \<not> truthy mkey then get_mkey E path name data vdom else ret mkey) (\<lambda>mkey.
     bind (cmdb_url E path name vdom mkey) (\<lambda>url.
     bind (send E DELETE url parameters (JsonBody data) VNone) (\<lambda>res.
     formatresponse (Raw res) vdom)))"

text \<open>\<^verbatim>\<open>set\<close>, named \<open>set_op\<close> here.\<close>

definition set_op ::
  "env \<Rightarrow> string \<Rightarrow> string \<Rightarrow> pyval \<Rightarrow> pyval \<Rightarrow> string option \<Rightarrow> pyval \<Rightarrow> pyobj action" where
  "set_op E path name data mkey vdom parameters =
     bind (if \<not> truthy mkey then get_mkey E path name data vdom else ret mkey) (\<lambda>mkey.
     bind (cmdb_url E path name vdom mkey) (\<lambda>url.
     bind (send E PUT url parameters (JsonBody data) VNone) (\<lambda>res.
     bind (formatresponse (Raw res) vdom) (\<lambda>r.
     bind (lift (subscript_obj r (VStr ''http_status''))) (\<lambda>http_status.
       if py_eq_int http_status 404 \<or> py_eq_int http_status 405 \<or> py_eq_int http_status 500
       then bind (post E path name data vdom mkey VNone) (\<lambda>res. formatresponse res vdom)
       else ret r)))))"


text \<open>\<^verbatim>\<open>license\<close>; the pause before asking again leaves no trace in the state.\<close>

definition license :: "env \<Rightarrow> string \<Rightarrow> pyobj action" where
  "license E vdom =
     bind (monitor E ''license'' ''status'' (Some vdom) VNone VNone) (\<lambda>resp.
     bind (lift (subscript_obj resp (VStr ''status''))) (\<lambda>st.
       if py_eq_str st ''success'' then ret resp
       else
         bind (execute E ''system'' ''fortiguard/update'' VNone (Some vdom) VNone VNone)
           (\<lambda>postresp.
         bind (lift (subscript_obj postresp (VStr ''status''))) (\<lambda>pst.
           if py_eq_str pst ''success''
           then monitor E ''license'' ''status'' (Some vdom) VNone VNone
           else ret (Val VNone)))))"

section \<open>Login and logout\<close>

text \<open>\<^verbatim>\<open>if type(resp_lic) != dict: resp_lic = resp_lic.json()\<close>: a decoded value that is
  not a dictionary has no \<^verbatim>\<open>json\<close> attribute.\<close>

definition dict_or_json :: "pyobj \<Rightarrow> error + pyval" where
  "dict_or_json resp_lic =
     (case resp_lic of
        Val (VDict d) \<Rightarrow> Inr (VDict d)
      | Val _ \<Rightarrow> Inl AttributeError
      | Raw r \<Rightarrow> loads r)"

text \<open>The \<^verbatim>\<open>try\<close>/\<^verbatim>\<open>except KeyError\<close> that ends \<^verbatim>\<open>login\<close>.\<close>

definition login_version :: "pyval \<Rightarrow> bool action" where
  "login_version resp_lic s =
     (case subscript resp_lic (VStr ''version'') of
        Inr v \<Rightarrow> (Inr True, s\<lparr>fortiversion := v\<rparr>)
      | Inl KeyError \<Rightarrow>
          (case subscript resp_lic (VStr ''status'') of
             Inl e \<Rightarrow> (Inl e, s)
           | Inr st \<Rightarrow>
               if py_eq_str st ''success'' then (Inr True, s\<lparr>logged := True\<rparr>)
               else (Inl NotLogged, s\<lparr>logged := False\<rparr>))
      | Inl e \<Rightarrow> (Inl e, s))"

text \<open>What \<^verbatim>\<open>login\<close> does with the answer to its POST.\<close>

definition login_check :: "env \<Rightarrow> string \<Rightarrow> response \<Rightarrow> bool action" where
  "login_check E vdom res s =
     (case ascii_text res of
        None \<Rightarrow> (Inl UnicodeDecodeError, s)
      | Some [] \<Rightarrow> (Inl IndexError, s)
      | Some (c # _) \<Rightarrow>
          if c = CHR ''1'' then
            bind (monitor E ''license'' ''status'' None VNone
                    (VStr (''{ vdom = '' @ vdom @ '' }''))) (\<lambda>resp_lic.
            bind (lift (dict_or_json resp_lic)) login_version)
              ((update_cookie s)\<lparr>logged := True\<rparr>)
          else (Inl NotLogged, s\<lparr>logged := False\<rparr>))"

definition login ::
  "env \<Rightarrow> string \<Rightarrow> string \<Rightarrow> string \<Rightarrow> pyval \<Rightarrow> pyval \<Rightarrow> pyval \<Rightarrow> string \<Rightarrow> bool action" where
  "login E host_arg username password verify_arg cert_arg timeout_arg vdom s =
     (let prefix = (if \<not> https_mode s then ''http://'' else ''https://'') @ host_arg;
          s = s\<lparr>host := Some host_arg, url_prefix := Some prefix\<rparr>;
          url = prefix @ ''/logincheck'';
          s = s\<lparr>verify := verify_arg\<rparr>;
          s = (if cert_arg \<noteq> VNone then s\<lparr>session_cert := cert_arg\<rparr> else s);
          s = s\<lparr>timeout := timeout_arg\<rparr>
      in bind (send E POST url VNone
                 (TextBody (''username='' @ quote ''/'' username @ ''&secretkey=''
                    @ quote ''/'' password @ ''&ajax=1'')) VNone)
           (login_check E vdom) s)"

text \<open>The \<^verbatim>\<open>try\<close>/\<^verbatim>\<open>except TypeError\<close> that ends \<^verbatim>\<open>tokenlogin\<close>.\<close>

definition token_version :: "pyobj \<Rightarrow> bool action" where
  "token_version resp_lic s =
     (case subscript_obj resp_lic (VStr ''version'') of
        Inr v \<Rightarrow> (Inr True, s\<lparr>fortiversion := v\<rparr>)
      | Inl TypeError \<Rightarrow> (Inl NotLogged, s)
      | Inl e \<Rightarrow> (Inl e, s))"

definition tokenlogin ::
  "env \<Rightarrow> string \<Rightarrow> string \<Rightarrow> pyval \<Rightarrow> pyval \<Rightarrow> pyval \<Rightarrow> string option \<Rightarrow> bool action" where
  "tokenlogin E host_arg token verify_arg cert_arg timeout_arg vdom s =
     (let s = s\<lparr>host := Some host_arg\<rparr>;
          s = s\<lparr>headers := AList.update ''Authorization'' (''Bearer '' @ token) (headers s)\<rparr>;
          s = s\<lparr>logged := True\<rparr>;
          s = s\<lparr>url_prefix :=
                  Some ((if \<not> https_mode s then ''http://'' else ''https://'') @ host_arg)\<rparr>;
          s = s\<lparr>verify := verify_arg\<rparr>;
          s = (if cert_arg \<noteq> VNone then s\<lparr>session_cert := cert_arg\<rparr> else s);
          s = s\<lparr>timeout := timeout_arg\<rparr>
      in bind (get E ''system'' ''status'' vdom VNone VNone) token_version s)"

definition logout :: "env \<Rightarrow> unit action" where
  "logout E s =
     (case url_prefix s of
        None \<Rightarrow> (Inl TypeError, s)
      | Some p \<Rightarrow>
          bind (send E POST (p @ ''/logout'') VNone NoBody VNone) (\<lambda>res s.
            (Inr (), s\<lparr>cookies := [], logged := False, license_state := Some ''Valid''\<rparr>)) s)"

section \<open>Applying a configuration tree\<close>

text \<open>The tree of \<^verbatim>\<open>setoverlayconfig\<close>: name, then path, then the fields of that path. A
  field whose value is a dictionary is a table row, keyed by its identity.\<close>

type_synonym tree = "(string \<times> (string \<times> pydict) list) list"

text \<open>\<^verbatim>\<open>yamltree[name][path][k]\<close>.\<close>

definition tree_get :: "tree \<Rightarrow> string \<Rightarrow> string \<Rightarrow> pykey \<Rightarrow> error + pyval" where
  "tree_get t name path k =
     (case map_of t name of
        None \<Rightarrow> Inl KeyError
      | Some ps \<Rightarrow>
          (case map_of ps path of
             None \<Rightarrow> Inl KeyError
           | Some fs \<Rightarrow> (case dict_get k fs of None \<Rightarrow> Inl KeyError | Some v \<Rightarrow> Inr v)))"

text \<open>\<^verbatim>\<open>del yamltree[name][path][k]\<close>.\<close>

definition tree_del_field :: "tree \<Rightarrow> string \<Rightarrow> string \<Rightarrow> pykey \<Rightarrow> error + tree" where
  "tree_del_field t name path k =
     (case map_of t name of
        None \<Rightarrow> Inl KeyError
      | Some ps \<Rightarrow>
          (case map_of ps path of
             None \<Rightarrow> Inl KeyError
           | Some fs \<Rightarrow>
               (case dict_get k fs of
                  None \<Rightarrow> Inl KeyError
                | Some v \<Rightarrow>
                    Inr (AList.update name
                          (AList.update path (filter (\<lambda>kv. \<not> keq (fst kv) k) fs) ps) t))))"

text \<open>\<^verbatim>\<open>del yamltreel3[name][path]\<close>.\<close>

definition tree_del_path :: "tree \<Rightarrow> string \<Rightarrow> string \<Rightarrow> error + tree" where
  "tree_del_path t name path =
     (case map_of t name of
        None \<Rightarrow> Inl KeyError
      | Some ps \<Rightarrow>
          (case map_of ps path of
             None \<Rightarrow> Inl KeyError
           | Some fs \<Rightarrow> Inr (AList.update name (AList.delete path ps) t)))"

text \<open>The first loop nest of \<^verbatim>\<open>setoverlayconfig\<close>. The pair is \<^verbatim>\<open>yamltree\<close> (the
  caller's object) and \<^verbatim>\<open>yamltreel3\<close> (its deep copy). The keys of a path are taken
  before the loop (\<^verbatim>\<open>.copy()\<close>), the values are read from the tree as it is then.\<close>

fun split_fields :: "string \<Rightarrow> string \<Rightarrow> pykey list \<Rightarrow> tree \<times> tree \<Rightarrow> error + tree \<times> tree" where
  "split_fields name path [] tt = Inr tt"
| "split_fields name path (k # ks) (yamltree, yamltreel3) =
     (case tree_get yamltree name path k of
        Inl e \<Rightarrow> Inl e
      | Inr node \<Rightarrow>
          if is_dict node then
            (case tree_del_field yamltree name path k of
               Inl e \<Rightarrow> Inl e
             | Inr yamltree' \<Rightarrow> split_fields name path ks (yamltree', yamltreel3))
          else
            (case tree_del_path yamltreel3 name path of
               Inl e \<Rightarrow> Inl e
             | Inr yamltreel3' \<Rightarrow> split_fields name path ks (yamltree, yamltreel3')))"

fun split_paths :: "string \<Rightarrow> string list \<Rightarrow> tree \<times> tree \<Rightarrow> error + tree \<times> tree" where
  "split_paths name [] tt = Inr tt"
| "split_paths name (path # ps) (yamltree, yamltreel3) =
     (case map_of yamltree name of
        None \<Rightarrow> Inl KeyError
      | Some paths \<Rightarrow>
          (case map_of paths path of
             None \<Rightarrow> Inl KeyError
           | Some fs \<Rightarrow>
               (case split_fields name path (map fst fs) (yamltree, yamltreel3) of
                  Inl e \<Rightarrow> Inl e
                | Inr tt \<Rightarrow> split_paths name ps tt)))"

fun split_names :: "string list \<Rightarrow> tree \<times> tree \<Rightarrow> error + tree \<times> tree" where
  "split_names [] tt = Inr tt"
| "split_names (name # ns) (yamltree, yamltreel3) =
     (case map_of yamltree name of
        None \<Rightarrow> Inl KeyError
      | Some paths \<Rightarrow>
          (case split_paths name (map fst paths) (yamltree, yamltreel3) of
             Inl e \<Rightarrow> Inl e
           | Inr tt \<Rightarrow> split_names ns tt))"

text \<open>The second loop nest: \<^verbatim>\<open>break\<close> leaves the loop over the paths of one name.\<close>

fun scalar_paths ::
  "env \<Rightarrow> string option \<Rightarrow> string \<Rightarrow> (string \<times> pydict) list \<Rightarrow> bool \<Rightarrow> bool action" where
  "scalar_paths E vdom name [] restree s = (Inr restree, s)"
| "scalar_paths E vdom name ((path, fs) # ps) restree s =
     (if truthy (VDict fs) then
        (case set_op E name path (VDict fs) VNone vdom VNone s of
           (Inl e, s') \<Rightarrow> (Inl e, s')
         | (Inr res, s') \<Rightarrow>
             (case subscript_obj res (VStr ''status'') of
                Inl e \<Rightarrow> (Inl e, s')
              | Inr st \<Rightarrow>
                  if py_eq_str st ''success'' then scalar_paths E vdom name ps True s'
                  else (Inr False, s')))
      else scalar_paths E vdom name ps restree s)"

fun scalar_names :: "env \<Rightarrow> string option \<Rightarrow> tree \<Rightarrow> bool \<Rightarrow> bool action" where
  "scalar_names E vdom [] restree s = (Inr restree, s)"
| "scalar_names E vdom ((name, paths) # ns) restree s =
     (case scalar_paths E vdom name paths restree s of
        (Inl e, s') \<Rightarrow> (Inl e, s')
      | (Inr b, s') \<Rightarrow> scalar_names E vdom ns b s')"

text \<open>The third loop nest: \<^verbatim>\<open>break\<close> leaves the loop over the rows of one path.\<close>

fun table_rows ::
  "env \<Rightarrow> string option \<Rightarrow> string \<Rightarrow> string \<Rightarrow> pydict \<Rightarrow> bool \<Rightarrow> bool action" where
  "table_rows E vdom name path [] restree s = (Inr restree, s)"
| "table_rows E vdom name path ((k, node) # rows) restree s =
     (case set_op E name path node (of_key k) vdom VNone s of
        (Inl e, s') \<Rightarrow> (Inl e, s')
      | (Inr res, s') \<Rightarrow>
          (case subscript_obj res (VStr ''status'') of
             Inl e \<Rightarrow> (Inl e, s')
           | Inr st \<Rightarrow>
               if py_eq_str st ''success'' then table_rows E vdom name path rows True s'
               else (Inr False, s')))"

fun table_paths ::
  "env \<Rightarrow> string option \<Rightarrow> string \<Rightarrow> (string \<times> pydict) list \<Rightarrow> bool \<Rightarrow> bool action" where
  "table_paths E vdom name [] restree s = (Inr restree, s)"
| "table_paths E vdom name ((path, rows) # ps) restree s =
     (case table_rows E vdom name path rows restree s of
        (Inl e, s') \<Rightarrow> (Inl e, s')
      | (Inr b, s') \<Rightarrow> table_paths E vdom name ps b s')"

fun table_names :: "env \<Rightarrow> string option \<Rightarrow> tree \<Rightarrow> bool \<Rightarrow> bool action" where
  "table_names E vdom [] restree s = (Inr restree, s)"
| "table_names E vdom ((name, paths) # ns) restree s =
     (case table_paths E vdom name paths restree s of
        (Inl e, s') \<Rightarrow> (Inl e, s')
      | (Inr b, s') \<Rightarrow> table_names E vdom ns b s')"

definition setoverlayconfig :: "env \<Rightarrow> tree \<Rightarrow> string option \<Rightarrow> bool action" where
  "setoverlayconfig E yamltree vdom s =
     (case split_names (map fst yamltree) (yamltree, yamltree) of
        Inl e \<Rightarrow> (Inl e, s)
      | Inr (yamltree', yamltreel3) \<Rightarrow>
          (case scalar_names E vdom yamltree' False s of
             (Inl e, s') \<Rightarrow> (Inl e, s')
           | (Inr restree, s') \<Rightarrow> table_names E vdom yamltreel3 restree s'))"



section \<open>Sessions as runs of operations\<close>

text \<open>One constructor for each method of the class that takes the object.\<close>

datatype op =
    OpFormatResponse pyobj "string option"
  | OpCheckSession
  | OpHttps string
  | OpUpdateCookie
  | OpLogin string string string pyval pyval pyval string
  | OpTokenLogin string string pyval pyval pyval "string option"
  | OpGetVersion
  | OpGetMkeyname string string "string option"
  | OpGetMkey string string pyval "string option"
  | OpLogout
  | OpCmdbUrl string string "string option" pyval
  | OpMonUrl string string "string option" pyval
  | OpDownload string string "string option" pyval pyval
  | OpUpload string string "string option" pyval pyval pyval pyval
  | OpGet string string "string option" pyval pyval
  | OpMonitor string string "string option" pyval pyval
  | OpSchema string string "string option"
  | OpGetNamePathDict "string option"
  | OpPost string string pyval "string option" pyval pyval
  | OpExecute string string pyval "string option" pyval pyval
  | OpPut string string "string option" pyval pyval pyval
  | OpMove string string "string option" pyval pyval pyval "pyval option"
  | OpDelete string string "string option" pyval pyval pyval
  | OpSet string string pyval pyval "string option" pyval
  | OpLicense string
  | OpSetOverlayConfig tree "string option"

text \<open>The state a call leaves behind, whether it returns or raises.\<close>

fun exec :: "env \<Rightarrow> op \<Rightarrow> state \<Rightarrow> state" where
  "exec E (OpFormatResponse res vdom) s = snd (formatresponse res vdom s)"
| "exec E OpCheckSession s = snd (check_session s)"
| "exec E (OpHttps status) s = https status s"
| "exec E OpUpdateCookie s = update_cookie s"
| "exec E (OpLogin h u p v c t vd) s = snd (login E h u p v c t vd s)"
| "exec E (OpTokenLogin h tok v c t vd) s = snd (tokenlogin E h tok v c t vd s)"
| "exec E OpGetVersion s = snd (get_version s)"
| "exec E (OpGetMkeyname path name vdom) s = snd (get_mkeyname E path name vdom s)"
| "exec E (OpGetMkey path name data vdom) s = snd (get_mkey E path name data vdom s)"
| "exec E OpLogout s = snd (logout E s)"
| "exec E (OpCmdbUrl path name vdom mkey) s = snd (cmdb_url E path name vdom mkey s)"
| "exec E (OpMonUrl path name vdom mkey) s = snd (mon_url E path name vdom mkey s)"
| "exec E (OpDownload path name vdom mkey ps) s = snd (download E path name vdom mkey ps s)"
| "exec E (OpUpload path name vdom mkey ps data files) s =
     snd (upload E path name vdom mkey ps data files s)"
| "exec E (OpGet path name vdom mkey ps) s = snd (get E path name vdom mkey ps s)"
| "exec E (OpMonitor path name vdom mkey ps) s = snd (monitor E path name vdom mkey ps s)"
| "exec E (OpSchema path name vdom) s = snd (schema E path name vdom s)"
| "exec E (OpGetNamePathDict vdom) s = snd (get_name_path_dict E vdom s)"
| "exec E (OpPost path name data vdom mkey ps) s = snd (post E path name data vdom mkey ps s)"
| "exec E (OpExecute path name data vdom mkey ps) s =
     snd (execute E path name data vdom mkey ps s)"
| "exec E (OpPut path name vdom mkey ps data) s = snd (put E path name vdom mkey ps data s)"
| "exec E (OpMove path name vdom mkey wh ref ps) s =
     snd (move E path name vdom mkey wh ref ps s)"
| "exec E (OpDelete path name vdom mkey ps data) s =
     snd (delete E path name vdom mkey ps data s)"
| "exec E (OpSet path name data mkey vdom ps) s = snd (set_op E path name data mkey vdom ps s)"
| "exec E (OpLicense vdom) s = snd (license E vdom s)"
| "exec E (OpSetOverlayConfig yamltree vdom) s = snd (setoverlayconfig E yamltree vdom s)"

fun run :: "env \<Rightarrow> op list \<Rightarrow> state \<Rightarrow> state" where
  "run E [] s = s"
| "run E (x # xs) s = run E xs (exec E x s)"

text \<open>The states a client object can be in: made by \<^verbatim>\<open>__init__\<close>, then changed by
  calls of its methods only.\<close>

inductive reachable :: "env \<Rightarrow> state \<Rightarrow> bool" for E :: env where
  reach_init: "reachable E (init hs mp)"
| reach_exec: "reachable E s \<Longrightarrow> reachable E (exec E x s)"

text \<open>The operations that run the cookie step.\<close>

fun cookie_step :: "op \<Rightarrow> bool" where
  "cookie_step OpUpdateCookie = True"
| "cookie_step (OpLogin h u p v c t vd) = True"
| "cookie_step _ = False"

text \<open>\<open>ext s s'\<close>: from \<open>s\<close> to \<open>s'\<close> only requests were sent, each with the headers of
  \<open>s\<close>, and nothing of the object changed but what the transport keeps (the exchanges, the
  cookie jar) and the default object of \<^verbatim>\<open>move\<close>.\<close>

definition ext :: "state \<Rightarrow> state \<Rightarrow> bool" where
  "ext s s' =
     (\<exists>new ck mp. s' = s\<lparr>cookies := ck, exchanges := exchanges s @ new, move_parameters := mp\<rparr>
        \<and> list_all (\<lambda>x. rq_headers (fst x) = headers s) new)"

definition framed :: "'a action \<Rightarrow> bool" where
  "framed m = (\<forall>s. ext s (snd (m s)))"

text \<open>\<open>csrf_kept s s'\<close>: the session's \<^verbatim>\<open>X-CSRFTOKEN\<close> header is the same in \<open>s'\<close> as in
  \<open>s\<close>, and every request sent in between carried it.\<close>

definition csrf_kept :: "state \<Rightarrow> state \<Rightarrow> bool" where
  "csrf_kept s s' =
     (map_of (headers s') ''X-CSRFTOKEN'' = map_of (headers s) ''X-CSRFTOKEN''
      \<and> (\<exists>new. exchanges s' = exchanges s @ new
            \<and> list_all (\<lambda>x. map_of (rq_headers (fst x)) ''X-CSRFTOKEN''
                              = map_of (headers s) ''X-CSRFTOKEN'') new))"

section \<open>An example appliance\<close>

text \<open>A small appliance on which the theorems below are exercised: every GET is answered
  with a schema whose identity key is \<^verbatim>\<open>name\<close> (and a version), every PUT with 404,
  every POST and DELETE with success.\<close>

definition reply :: "int \<Rightarrow> pyval \<Rightarrow> response" where
  "reply code j = \<lparr> status_code = code, ascii_text = None, json_body = Some j, set_cookies = [] \<rparr>"

definition demo_server :: "(request \<times> response option) list \<Rightarrow> request \<Rightarrow> response option" where
  "demo_server past rq =
     (case rq_verb rq of
        GET \<Rightarrow>
          Some (reply 200 (VDict [(KStr ''http_status'', VInt 200), (KStr ''status'', VStr ''success''),
                  (KStr ''version'', VStr ''v7.0.1''),
                  (KStr ''results'', VDict [(KStr ''mkey'', VStr ''name'')])]))
      | PUT \<Rightarrow>
          Some (reply 404 (VDict [(KStr ''http_status'', VInt 404), (KStr ''status'', VStr ''error'')]))
      | _ \<Rightarrow>
          Some (reply 200 (VDict [(KStr ''http_status'', VInt 200), (KStr ''status'', VStr ''success'')])))"

definition demo_env :: env where
  "demo_env = \<lparr> server = demo_server, py_repr = (\<lambda>v. ''{}'') \<rparr>"

text \<open>A client that is logged in to the host \<^verbatim>\<open>fw\<close>.\<close>

definition demo_state :: state where
  "demo_state = (init [] [])\<lparr> logged := True, url_prefix := Some ''https://fw'' \<rparr>"

text \<open>An appliance whose schemas name no identity key.\<close>

definition bare_server :: "(request \<times> response option) list \<Rightarrow> request \<Rightarrow> response option" where
  "bare_server past rq =
     Some (reply 200 (VDict [(KStr ''http_status'', VInt 200), (KStr ''status'', VStr ''success''),
             (KStr ''results'', VDict [(KStr ''category'', VStr ''complex'')])]))"

definition bare_env :: env where
  "bare_env = \<lparr> server = bare_server, py_repr = (\<lambda>v. ''{}'') \<rparr>"




section \<open>Basic facts\<close>

lemma startswith_self: "startswith p p"
  by (simp add: startswith_def)

lemma bind_ret [simp]: "bind (ret x) f s = f x s"
  by (simp add: bind_def ret_def)

lemma bind_raise [simp]: "bind (raise e) f s = (Inl e, s)"
  by (simp add: bind_def raise_def)

lemma bind_lift_Inr [simp]: "bind (lift (Inr x)) f s = f x s"
  by (simp add: bind_def lift_def)

lemma bind_lift_Inl [simp]: "bind (lift (Inl e)) f s = (Inl e, s)"
  by (simp add: bind_def lift_def)



lemma bind_eq_Inr:
  "bind m f s = (Inr y, s') \<longleftrightarrow> (\<exists>x s1. m s = (Inr x, s1) \<and> f x s1 = (Inr y, s'))"
  by (auto simp: bind_def split: prod.splits sum.splits)

section \<open>What the operations leave unchanged\<close>

lemma extI:
  "s' = s\<lparr>cookies := ck, exchanges := exchanges s @ new, move_parameters := mp\<rparr> \<Longrightarrow>
   list_all (\<lambda>x. rq_headers (fst x) = headers s) new \<Longrightarrow> ext s s'"
  unfolding ext_def by blast

lemma ext_refl: "ext s s"
  by (rule extI[where ck = "cookies s" and new = "[]" and mp = "move_parameters s"]) simp_all

lemma ext_trans:
  assumes "ext s s1" and "ext s1 s2"
  shows "ext s s2"
proof -
  from assms(1) obtain new ck mp where
    s1: "s1 = s\<lparr>cookies := ck, exchanges := exchanges s @ new, move_parameters := mp\<rparr>"
    and h1: "list_all (\<lambda>x. rq_headers (fst x) = headers s) new"
    unfolding ext_def by blast
  from assms(2) obtain new' ck' mp' where
    s2: "s2 = s1\<lparr>cookies := ck', exchanges := exchanges s1 @ new', move_parameters := mp'\<rparr>"
    and h2: "list_all (\<lambda>x. rq_headers (fst x) = headers s1) new'"
    unfolding ext_def by blast
  show ?thesis
    by (rule extI[where ck = ck' and new = "new @ new'" and mp = mp'])
       (use s1 s2 h1 h2 in simp_all)
qed

lemma ext_send: "ext s (snd (send E v url ps b fs s))"
proof -
  define rq where "rq = \<lparr>rq_verb = v, rq_url = url, rq_params = ps, rq_body = b,
                 rq_files = fs, rq_timeout = timeout s, rq_headers = headers s\<rparr>"
  show ?thesis
  proof (cases "server E (exchanges s) rq")
    case None
    then have "snd (send E v url ps b fs s) = s\<lparr>exchanges := exchanges s @ [(rq, None)]\<rparr>"
      by (simp add: send_def Let_def rq_def)
    then show ?thesis
      by (intro extI[where ck = "cookies s" and new = "[(rq, None)]" and mp = "move_parameters s"])
         (simp_all add: rq_def)
  next
    case (Some r)
    then have "snd (send E v url ps b fs s) = s\<lparr>exchanges := exchanges s @ [(rq, Some r)],
        cookies := fold (\<lambda>(n, v). AList.update n v) (set_cookies r) (cookies s)\<rparr>"
      by (simp add: send_def Let_def rq_def)
    then show ?thesis
      by (intro extI[where ck = "fold (\<lambda>(n, v). AList.update n v) (set_cookies r) (cookies s)"
            and new = "[(rq, Some r)]" and mp = "move_parameters s"]) (simp_all add: rq_def)
  qed
qed

lemma framed_ret: "framed (ret x)"
  by (simp add: framed_def ret_def ext_refl)

lemma framed_raise: "framed (raise e)"
  by (simp add: framed_def raise_def ext_refl)

lemma framed_lift: "framed (lift r)"
  by (simp add: framed_def lift_def ext_refl)

lemma framed_bind: "framed m \<Longrightarrow> (\<And>x. framed (f x)) \<Longrightarrow> framed (bind m f)"
  unfolding framed_def bind_def
  apply (auto split: prod.splits sum.splits)
   apply (metis snd_conv)
  by (metis ext_trans snd_conv)

lemma framed_if: "framed a \<Longrightarrow> framed b \<Longrightarrow> framed (if c then a else b)"
  by simp

lemma framed_send: "framed (send E v url ps b fs)"
  by (simp add: framed_def ext_send)

lemma framed_pure: "(\<And>s. snd (m s) = s) \<Longrightarrow> framed m"
  by (simp add: framed_def ext_refl)

lemma framed_check_session: "framed check_session"
  by (rule framed_pure) (simp add: check_session_def)

lemma framed_formatresponse: "framed (formatresponse r vdom)"
  by (rule framed_pure) (simp add: formatresponse_def split: pyobj.splits sum.splits)

lemma framed_cmdb_url: "framed (cmdb_url E path name vdom mkey)"
  unfolding cmdb_url_def
  by (intro framed_bind framed_check_session framed_pure) (simp add: Let_def split: option.splits)

lemma framed_mon_url: "framed (mon_url E path name vdom mkey)"
  unfolding mon_url_def
  by (intro framed_bind framed_check_session framed_pure) (simp add: Let_def split: option.splits)

lemmas framed_intros = framed_bind framed_ret framed_raise framed_lift framed_send
  framed_check_session framed_formatresponse framed_cmdb_url framed_mon_url framed_if

lemma framed_schema: "framed (schema E path name vdom)"
  unfolding schema_def by (intro framed_intros)

lemma framed_get_mkeyname: "framed (get_mkeyname E path name vdom)"
  unfolding get_mkeyname_def
  by (intro framed_intros framed_schema) (auto split: sum.splits error.splits intro: framed_intros)

lemma framed_get_mkey: "framed (get_mkey E path name data vdom)"
  unfolding get_mkey_def
  by (intro framed_intros framed_get_mkeyname) (auto split: sum.splits error.splits intro: framed_intros)


lemma framedD: "framed m \<Longrightarrow> m s = (r, s') \<Longrightarrow> ext s s'"
  unfolding framed_def by (metis snd_conv)

lemma framed_download: "framed (download E path name vdom mkey ps)"
  unfolding download_def by (intro framed_intros)

lemma framed_upload: "framed (upload E path name vdom mkey ps data files)"
  unfolding upload_def by (intro framed_intros)

lemma framed_get: "framed (get E path name vdom mkey ps)"
  unfolding get_def by (intro framed_intros)

lemma framed_monitor: "framed (monitor E path name vdom mkey ps)"
  unfolding monitor_def by (intro framed_intros)

lemma framed_execute: "framed (execute E path name data vdom mkey ps)"
  unfolding execute_def by (intro framed_intros)

lemma framed_post: "framed (post E path name data vdom mkey ps)"
  unfolding post_def by (intro framed_intros framed_get_mkeyname)

lemma framed_put: "framed (put E path name vdom mkey ps data)"
  unfolding put_def by (intro framed_intros framed_get_mkey)

lemma framed_delete: "framed (delete E path name vdom mkey ps data)"
  unfolding delete_def by (intro framed_intros framed_get_mkey)

lemma framed_set_op: "framed (set_op E path name data mkey vdom ps)"
  unfolding set_op_def by (intro framed_intros framed_get_mkey framed_post)

lemma framed_license: "framed (license E vdom)"
  unfolding license_def by (intro framed_intros framed_monitor framed_execute)

lemma framed_get_name_path_dict: "framed (get_name_path_dict E vdom)"
  unfolding framed_def
proof
  fix s
  have fr: "ext s (snd (bind (send E GET u VNone NoBody VNone) (\<lambda>c. lift (g c)) s))"
    for u and g :: "response \<Rightarrow> error + pyobj"
  proof -
    have "framed (bind (send E GET u VNone NoBody VNone) (\<lambda>c. lift (g c)))"
      by (intro framed_intros)
    then show ?thesis by (simp add: framed_def)
  qed
  show "ext s (snd (get_name_path_dict E vdom s))"
  proof (cases "url_prefix s")
    case None
    then show ?thesis by (simp add: get_name_path_dict_def Let_def ext_refl)
  next
    case (Some p)
    then show ?thesis
      unfolding get_name_path_dict_def Let_def by (simp only: option.case fr)
  qed
qed

lemma ext_move_parameters: "ext s (s\<lparr>move_parameters := mp\<rparr>)"
  by (rule extI[where ck = "cookies s" and new = "[]" and mp = mp]) simp_all

lemma framed_move: "framed (move E path name vdom mkey wh ref ps)"
  unfolding move_def
proof (intro framed_bind framed_cmdb_url)
  fix url
  have snd_fmt: "framed (bind (send E PUT url p NoBody VNone) (\<lambda>res. formatresponse (Raw res) vdom))" for p
    by (intro framed_intros)
  show "framed (\<lambda>s. case ps of
         None \<Rightarrow>
           (let s1 = s\<lparr>move_parameters :=
                        dict_set (KStr ''action'') (VStr ''move'') (move_parameters s)\<rparr>
            in case to_key wh of
                 None \<Rightarrow> (Inl TypeError, s1)
               | Some k \<Rightarrow>
                   (let s2 = s1\<lparr>move_parameters :=
                                 dict_set k (VStr (pystr E ref)) (move_parameters s1)\<rparr>
                    in bind (send E PUT url (VDict (move_parameters s2)) NoBody VNone)
                         (\<lambda>res. formatresponse (Raw res) vdom) s2))
       | Some p \<Rightarrow>
           (case setitem p (VStr ''action'') (VStr ''move'') of
              Inl e \<Rightarrow> (Inl e, s)
            | Inr p1 \<Rightarrow>
                (case setitem p1 wh (VStr (pystr E ref)) of
                   Inl e \<Rightarrow> (Inl e, s)
                 | Inr p2 \<Rightarrow>
                     bind (send E PUT url p2 NoBody VNone)
                       (\<lambda>res. formatresponse (Raw res) vdom) s)))"
    unfolding framed_def
  proof
    fix s
    show "ext s (snd (case ps of
         None \<Rightarrow>
           (let s1 = s\<lparr>move_parameters :=
                        dict_set (KStr ''action'') (VStr ''move'') (move_parameters s)\<rparr>
            in case to_key wh of
                 None \<Rightarrow> (Inl TypeError, s1)
               | Some k \<Rightarrow>
                   (let s2 = s1\<lparr>move_parameters :=
                                 dict_set k (VStr (pystr E ref)) (move_parameters s1)\<rparr>
                    in bind (send E PUT url (VDict (move_parameters s2)) NoBody VNone)
                         (\<lambda>res. formatresponse (Raw res) vdom) s2))
       | Some p \<Rightarrow>
           (case setitem p (VStr ''action'') (VStr ''move'') of
              Inl e \<Rightarrow> (Inl e, s)
            | Inr p1 \<Rightarrow>
                (case setitem p1 wh (VStr (pystr E ref)) of
                   Inl e \<Rightarrow> (Inl e, s)
                 | Inr p2 \<Rightarrow>
                     bind (send E PUT url p2 NoBody VNone)
                       (\<lambda>res. formatresponse (Raw res) vdom) s))))"
      using snd_fmt[unfolded framed_def]
      by (auto simp: Let_def ext_refl ext_move_parameters split: option.splits sum.splits
               intro: ext_trans[OF ext_move_parameters])
  qed
qed

lemma ext_scalar_paths: "ext s (snd (scalar_paths E vdom name ps acc s))"
proof (induction ps arbitrary: acc s)
  case Nil
  then show ?case by (simp add: ext_refl)
next
  case (Cons a ps)
  obtain path fs where a: "a = (path, fs)" by (cases a)
  show ?case
    unfolding a
    by (auto simp: ext_refl Cons.IH split: prod.splits sum.splits
             dest!: framedD[OF framed_set_op] intro: ext_trans[OF _ Cons.IH])
qed

lemma ext_scalar_names: "ext s (snd (scalar_names E vdom t acc s))"
proof (induction t arbitrary: acc s)
  case Nil
  then show ?case by (simp add: ext_refl)
next
  case (Cons a t)
  obtain name ps where a: "a = (name, ps)" by (cases a)
  show ?case
    unfolding a
    using ext_scalar_paths[of s E vdom name ps acc]
    by (auto split: prod.splits sum.splits intro: ext_trans[OF _ Cons.IH])
qed

lemma ext_table_rows: "ext s (snd (table_rows E vdom name path rows acc s))"
proof (induction rows arbitrary: acc s)
  case Nil
  then show ?case by (simp add: ext_refl)
next
  case (Cons a rows)
  obtain k node where a: "a = (k, node)" by (cases a)
  show ?case
    unfolding a
    by (auto simp: ext_refl split: prod.splits sum.splits
             dest!: framedD[OF framed_set_op] intro: ext_trans[OF _ Cons.IH])
qed

lemma ext_table_paths: "ext s (snd (table_paths E vdom name ps acc s))"
proof (induction ps arbitrary: acc s)
  case Nil
  then show ?case by (simp add: ext_refl)
next
  case (Cons a ps)
  obtain path rows where a: "a = (path, rows)" by (cases a)
  show ?case
    unfolding a
    using ext_table_rows[of s E vdom name path rows acc]
    by (auto split: prod.splits sum.splits intro: ext_trans[OF _ Cons.IH])
qed

lemma ext_table_names: "ext s (snd (table_names E vdom t acc s))"
proof (induction t arbitrary: acc s)
  case Nil
  then show ?case by (simp add: ext_refl)
next
  case (Cons a t)
  obtain name ps where a: "a = (name, ps)" by (cases a)
  show ?case
    unfolding a
    using ext_table_paths[of s E vdom name ps acc]
    by (auto split: prod.splits sum.splits intro: ext_trans[OF _ Cons.IH])
qed

lemma framed_setoverlayconfig: "framed (setoverlayconfig E t vdom)"
  unfolding framed_def
proof
  fix s
  show "ext s (snd (setoverlayconfig E t vdom s))"
    unfolding setoverlayconfig_def
    using ext_scalar_names ext_table_names
    by (auto simp: ext_refl split: sum.splits prod.splits)
       (metis ext_trans snd_conv)+
qed

lemma ext_fields:
  assumes "ext s s'"
  shows "license_state s' = license_state s" "logged s' = logged s" "url_prefix s' = url_prefix s"
     "headers s' = headers s" "host s' = host s" "https_mode s' = https_mode s"
     "fortiversion s' = fortiversion s" "timeout s' = timeout s"
  using assms unfolding ext_def by auto

lemma ext_exchanges:
  assumes "ext s s'"
  shows "\<exists>new. exchanges s' = exchanges s @ new \<and> list_all (\<lambda>x. rq_headers (fst x) = headers s) new"
  using assms unfolding ext_def by auto

section \<open>The cookie step and the CSRF header\<close>

lemma map_of_csrf_loop:
  "map_of (update_cookie_loop cs hs) ''X-CSRFTOKEN'' =
     (case filter (\<lambda>c. fst c = ''ccsrftoken'' \<or> startswith (fst c) ''ccsrftoken_'') cs of
        [] \<Rightarrow> map_of hs ''X-CSRFTOKEN''
      | m # ms \<Rightarrow> Some (butlast (tl (snd (last (m # ms))))))"
proof (induction cs arbitrary: hs)
  case Nil
  then show ?case by simp
next
  case (Cons c cs)
  obtain n v where c: "c = (n, v)" by (cases c)
  show ?case
    unfolding c by (simp add: Cons.IH update_conv' split: list.splits)
qed

lemma csrf_kept_refl: "csrf_kept s s"
  unfolding csrf_kept_def by (auto intro: exI[of _ "[]"])

lemma csrf_kept_trans:
  assumes "csrf_kept s s1" and "csrf_kept s1 s2"
  shows "csrf_kept s s2"
proof -
  from assms(1) obtain new where
    h: "map_of (headers s1) ''X-CSRFTOKEN'' = map_of (headers s) ''X-CSRFTOKEN''"
    and e: "exchanges s1 = exchanges s @ new"
    and a: "list_all (\<lambda>x. map_of (rq_headers (fst x)) ''X-CSRFTOKEN''
                              = map_of (headers s) ''X-CSRFTOKEN'') new"
    unfolding csrf_kept_def by blast
  from assms(2) obtain new' where
    h': "map_of (headers s2) ''X-CSRFTOKEN'' = map_of (headers s1) ''X-CSRFTOKEN''"
    and e': "exchanges s2 = exchanges s1 @ new'"
    and a': "list_all (\<lambda>x. map_of (rq_headers (fst x)) ''X-CSRFTOKEN''
                              = map_of (headers s1) ''X-CSRFTOKEN'') new'"
    unfolding csrf_kept_def by blast
  have "exchanges s2 = exchanges s @ (new @ new')" using e e' by simp
  moreover have "list_all (\<lambda>x. map_of (rq_headers (fst x)) ''X-CSRFTOKEN''
                              = map_of (headers s) ''X-CSRFTOKEN'') (new @ new')"
    using a a' h by simp
  ultimately show ?thesis unfolding csrf_kept_def using h h' by metis
qed

lemma ext_csrf_kept: "ext s s' \<Longrightarrow> csrf_kept s s'"
  unfolding ext_def csrf_kept_def
  by (auto simp: list_all_iff)

lemma csrf_kept_upd:
  "csrf_kept s (s\<lparr>host := a\<rparr>)" "csrf_kept s (s\<lparr>logged := b\<rparr>)" "csrf_kept s (s\<lparr>url_prefix := c\<rparr>)"
  "csrf_kept s (s\<lparr>verify := d\<rparr>)" "csrf_kept s (s\<lparr>session_cert := e\<rparr>)" "csrf_kept s (s\<lparr>timeout := f\<rparr>)"
  "csrf_kept s (s\<lparr>fortiversion := g\<rparr>)" "csrf_kept s (s\<lparr>https_mode := h\<rparr>)"
  "csrf_kept s (s\<lparr>cookies := i\<rparr>)" "csrf_kept s (s\<lparr>license_state := j\<rparr>)"
  unfolding csrf_kept_def by (auto intro: exI[of _ "[]"])


section \<open>The license state\<close>

lemma license_bind:
  assumes "\<And>s. license_state (snd (m s)) = license_state s"
    and "\<And>x s. license_state (snd (f x s)) = license_state s"
  shows "license_state (snd (bind m f s)) = license_state s"
proof (cases "m s")
  case (Pair r s1)
  then have "license_state s1 = license_state s" using assms(1)[of s] by simp
  then show ?thesis using Pair assms(2) by (cases r) (simp_all add: bind_def)
qed

lemma framed_license_state: "framed m \<Longrightarrow> license_state (snd (m s)) = license_state s"
  unfolding framed_def by (simp add: ext_fields)

lemma license_login_version:
  "license_state (snd (login_version r s)) = license_state s"
  by (simp add: login_version_def split: sum.splits error.splits)

lemma license_login_check: "license_state (snd (login_check E vd res s)) = license_state s"
proof -
  have "license_state (snd (bind (monitor E ''license'' ''status'' None VNone
                    (VStr (''{ vdom = '' @ vd @ '' }''))) (\<lambda>resp_lic.
            bind (lift (dict_or_json resp_lic)) login_version) s1)) = license_state s1" for s1
    by (intro license_bind framed_license_state framed_monitor framed_lift license_login_version)
  then show ?thesis
    unfolding login_check_def
    by (simp add: update_cookie_def split: option.splits list.splits)
qed

lemma license_login: "license_state (snd (login E h u p v c t vd s)) = license_state s"
proof -
  have "license_state (snd (bind (send E POST url VNone b VNone) (login_check E vd) s1))
          = license_state s1" for url b s1
    by (intro license_bind framed_license_state framed_send license_login_check)
  then show ?thesis
    unfolding login_def Let_def by simp
qed

lemma license_token_version: "license_state (snd (token_version r s)) = license_state s"
  by (simp add: token_version_def split: sum.splits error.splits)

lemma license_tokenlogin: "license_state (snd (tokenlogin E h tok v c t vd s)) = license_state s"
proof -
  have "license_state (snd (bind (get E ''system'' ''status'' vd VNone VNone) token_version s1))
          = license_state s1" for s1
    by (intro license_bind framed_license_state framed_get license_token_version)
  then show ?thesis
    unfolding tokenlogin_def Let_def by simp
qed

lemma license_logout:
  "license_state (snd (logout E s)) = license_state s
   \<or> license_state (snd (logout E s)) = Some ''Valid''"
proof (cases "url_prefix s")
  case None
  then show ?thesis by (simp add: logout_def)
next
  case (Some p)
  show ?thesis
  proof (cases "send E POST (p @ ''/logout'') VNone NoBody VNone s")
    case (Pair r s1)
    then show ?thesis using Some
      by (cases r) (simp_all add: logout_def bind_def framedD[OF framed_send Pair, THEN ext_fields(1)])
  qed
qed

lemma framed_get_version: "framed get_version"
  unfolding get_version_def
  by (intro framed_bind framed_check_session framed_pure) simp

lemma exec_license:
  "license_state (exec E x s) = license_state s
   \<or> (x = OpLogout \<and> license_state (exec E x s) = Some ''Valid'')"
proof (cases x)
  case OpLogout
  then show ?thesis using license_logout[of E s] by auto
qed (simp_all add: license_login license_tokenlogin https_def Let_def update_cookie_def
       framed_license_state framed_formatresponse framed_check_session framed_get_version
       framed_get_mkeyname framed_get_mkey framed_cmdb_url framed_mon_url framed_download
       framed_upload framed_get framed_monitor framed_schema framed_get_name_path_dict
       framed_post framed_execute framed_put framed_move framed_delete framed_set_op
       framed_license framed_setoverlayconfig)

lemma reachable_license: "reachable E s \<Longrightarrow> license_state s \<noteq> Some ''Invalid''"
proof (induction rule: reachable.induct)
  case (reach_init hs mp)
  then show ?case by (simp add: init_def)
next
  case (reach_exec s x)
  then show ?case using exec_license[of E x s] by auto
qed

lemma logout_Inr:
  assumes "logout E s = (Inr u, s')"
  shows "license_state s' = Some ''Valid'' \<and> \<not> logged s' \<and> cookies s' = []"
proof -
  from assms obtain p where p: "url_prefix s = Some p"
    by (cases "url_prefix s") (simp_all add: logout_def)
  from assms p obtain res s1 where
    "send E POST (p @ ''/logout'') VNone NoBody VNone s = (Inr res, s1)"
    and "s' = s1\<lparr>cookies := [], logged := False, license_state := Some ''Valid''\<rparr>"
    unfolding logout_def by (auto simp: bind_eq_Inr)
  then show ?thesis by simp
qed

text \<open>
  C9. No operation of the class gives the license state the value \<^verbatim>\<open>Invalid\<close>: it is
  \<^verbatim>\<open>None\<close> after construction, an operation leaves it as it was unless it is
  \<^verbatim>\<open>logout\<close>, which sets it to \<^verbatim>\<open>Valid\<close> when it returns; so in every state reachable
  by calls of the methods, \<^verbatim>\<open>check_session\<close> does not raise \<^verbatim>\<open>InvalidLicense\<close> and
  \<^verbatim>\<open>formatresponse\<close> does not raise its license exception.
\<close>

theorem license_never_invalid:
  "license_state (init hs mp) = None
   \<and> (license_state (exec E x s0) = license_state s0
        \<or> (x = OpLogout \<and> license_state (exec E x s0) = Some ''Valid''))
   \<and> (logout E s0 = (Inr (), s1) \<longrightarrow> license_state s1 = Some ''Valid'')
   \<and> (reachable E s \<longrightarrow>
        license_state s \<noteq> Some ''Invalid''
        \<and> fst (check_session s) \<noteq> Inl InvalidLicense
        \<and> (\<forall>res vdom. fst (formatresponse res vdom s) \<noteq> Inl (PyException ''invalid license'')))"
proof (intro conjI impI)
  show "license_state (init hs mp) = None" by (simp add: init_def)
  show "license_state (exec E x s0) = license_state s0
        \<or> (x = OpLogout \<and> license_state (exec E x s0) = Some ''Valid'')"
    by (rule exec_license)
next
  assume "logout E s0 = (Inr (), s1)"
  then show "license_state s1 = Some ''Valid''" using logout_Inr by blast
next
  assume r: "reachable E s"
  then show valid: "license_state s \<noteq> Some ''Invalid''" by (rule reachable_license)
  then show "fst (check_session s) \<noteq> Inl InvalidLicense"
    by (simp add: check_session_def)
  from valid show "\<forall>res vdom. fst (formatresponse res vdom s) \<noteq> Inl (PyException ''invalid license'')"
    by (simp add: formatresponse_def split: pyobj.splits sum.splits)
qed

theorem license_never_invalid_witness:
  "reachable demo_env (exec demo_env OpLogout (init [] []))
   \<and> license_state (exec demo_env OpLogout (init [] [])) \<noteq> Some ''Invalid''
   \<and> fst (check_session (exec demo_env OpLogout (init [] []))) \<noteq> Inl InvalidLicense"
  using license_never_invalid[where hs = "[]" and mp = "[]" and E = demo_env and x = OpLogout
          and ?s0.0 = "init [] []" and s = "exec demo_env OpLogout (init [] [])"]
        reach_exec[OF reach_init, of demo_env OpLogout "[]" "[]"]
  by blast

section \<open>Requests after the cookie step\<close>

lemma framed_csrf_kept: "framed m \<Longrightarrow> csrf_kept s (snd (m s))"
  unfolding framed_def by (simp add: ext_csrf_kept)

lemma csrf_kept_bind:
  assumes "\<And>s. csrf_kept s (snd (m s))"
    and "\<And>x s. csrf_kept s (snd (f x s))"
  shows "csrf_kept s (snd (bind m f s))"
proof (cases "m s")
  case (Pair r s1)
  then have k: "csrf_kept s s1" using assms(1)[of s] by simp
  show ?thesis
  proof (cases r)
    case (Inl e)
    then show ?thesis using Pair k by (simp add: bind_def)
  next
    case (Inr x)
    then have "snd (bind m f s) = snd (f x s1)" using Pair by (simp add: bind_def)
    then show ?thesis using csrf_kept_trans[OF k assms(2)[of s1 x]] by simp
  qed
qed

lemma csrf_kept_token_version: "csrf_kept s (snd (token_version r s))"
  by (simp add: token_version_def csrf_kept_refl csrf_kept_upd split: sum.splits error.splits)

lemma csrf_kept_tokenlogin: "csrf_kept s (snd (tokenlogin E h tok v c t vd s))"
proof -
  define s0 where "s0 = s\<lparr>host := Some h,
      headers := AList.update ''Authorization'' (''Bearer '' @ tok) (headers s),
      logged := True,
      url_prefix := Some ((if \<not> https_mode s then ''http://'' else ''https://'') @ h),
      verify := v,
      session_cert := (if c \<noteq> VNone then c else session_cert s),
      timeout := t\<rparr>"
  have eq: "tokenlogin E h tok v c t vd s
          = bind (get E ''system'' ''status'' vd VNone VNone) token_version s0"
    unfolding tokenlogin_def Let_def s0_def by simp
  have "map_of (headers s0) ''X-CSRFTOKEN'' = map_of (headers s) ''X-CSRFTOKEN''"
    by (simp add: s0_def update_conv')
  moreover have "exchanges s0 = exchanges s @ []" by (simp add: s0_def)
  ultimately have k0: "csrf_kept s s0"
    unfolding csrf_kept_def by (auto intro: exI[of _ "[]"])
  have "csrf_kept s0 (snd (bind (get E ''system'' ''status'' vd VNone VNone) token_version s0))"
    by (intro csrf_kept_bind framed_csrf_kept framed_get csrf_kept_token_version)
  then show ?thesis using csrf_kept_trans[OF k0] eq by simp
qed

lemma csrf_kept_logout: "csrf_kept s (snd (logout E s))"
proof (cases "url_prefix s")
  case None
  then show ?thesis by (simp add: logout_def csrf_kept_refl)
next
  case (Some p)
  have "csrf_kept s1 (s1\<lparr>cookies := [], logged := False, license_state := Some ''Valid''\<rparr>)" for s1
    unfolding csrf_kept_def by (auto intro: exI[of _ "[]"])
  then have "csrf_kept s (snd (bind (send E POST (p @ ''/logout'') VNone NoBody VNone) (\<lambda>res s.
            (Inr (), s\<lparr>cookies := [], logged := False, license_state := Some ''Valid''\<rparr>)) s))"
    by (intro csrf_kept_bind) (simp_all add: framed_csrf_kept framed_send)
  then show ?thesis using Some by (simp add: logout_def)
qed

lemma csrf_kept_https: "csrf_kept s (https status s)"
  by (simp add: https_def Let_def csrf_kept_refl csrf_kept_upd)

lemma exec_csrf_kept: "\<not> cookie_step x \<Longrightarrow> csrf_kept s (exec E x s)"
  by (cases x)
     (simp_all add: csrf_kept_https csrf_kept_tokenlogin csrf_kept_logout
       framed_csrf_kept framed_formatresponse framed_check_session framed_get_version
       framed_get_mkeyname framed_get_mkey framed_cmdb_url framed_mon_url framed_download
       framed_upload framed_get framed_monitor framed_schema framed_get_name_path_dict
       framed_post framed_execute framed_put framed_move framed_delete framed_set_op
       framed_license framed_setoverlayconfig)

lemma run_csrf_kept: "\<not> list_ex cookie_step ops \<Longrightarrow> csrf_kept s (run E ops s)"
proof (induction ops arbitrary: s)
  case Nil
  then show ?case by (simp add: csrf_kept_refl)
next
  case (Cons x ops)
  then have "csrf_kept s (exec E x s)" and "csrf_kept (exec E x s) (run E ops (exec E x s))"
    by (simp_all add: exec_csrf_kept)
  then show ?case using csrf_kept_trans by simp
qed

text \<open>
  C4. When the cookie jar holds a cookie named \<^verbatim>\<open>ccsrftoken\<close> or with a name that starts
  with \<^verbatim>\<open>ccsrftoken_\<close>, then after \<^verbatim>\<open>update_cookie\<close> the session header
  \<^verbatim>\<open>X-CSRFTOKEN\<close> is the value of that cookie without its first and its last character
  (with several such cookies in the jar: of the one the jar yields last), and every request
  sent by later operations carries this header, until the cookie step runs again (it is
  part of \<^verbatim>\<open>login\<close>).
\<close>

theorem update_cookie_csrf_header:
  assumes "(cname, cvalue) \<in> set (cookies s)"
    and "cname = ''ccsrftoken'' \<or> startswith cname ''ccsrftoken_''"
  shows "\<exists>cn cv.
           last (filter (\<lambda>c. fst c = ''ccsrftoken'' \<or> startswith (fst c) ''ccsrftoken_'')
                   (cookies s)) = (cn, cv)
         \<and> (cn, cv) \<in> set (cookies s)
         \<and> (cn = ''ccsrftoken'' \<or> startswith cn ''ccsrftoken_'')
         \<and> map_of (headers (update_cookie s)) ''X-CSRFTOKEN'' = Some (butlast (tl cv))
         \<and> (\<forall>ops. \<not> list_ex cookie_step ops \<longrightarrow>
               (\<exists>new. exchanges (run E ops (update_cookie s)) = exchanges s @ new
                  \<and> list_all (\<lambda>x. map_of (rq_headers (fst x)) ''X-CSRFTOKEN''
                                     = Some (butlast (tl cv))) new))"
proof -
  let ?P = "\<lambda>c. fst c = ''ccsrftoken'' \<or> startswith (fst c) ''ccsrftoken_''"
  let ?ms = "filter ?P (cookies s)"
  have "?P (cname, cvalue)" using assms(2) by simp
  with assms(1) have ne: "?ms \<noteq> []" unfolding filter_empty_conv by blast
  obtain cn cv where l: "last ?ms = (cn, cv)" by (cases "last ?ms")
  from ne have "last ?ms \<in> set ?ms" by (rule last_in_set)
  then have mem: "(cn, cv) \<in> set (cookies s)" and P: "?P (cn, cv)" using l by auto
  from ne obtain m ms' where ms: "?ms = m # ms'" by (cases ?ms) auto
  have "map_of (update_cookie_loop (cookies s) (headers s)) ''X-CSRFTOKEN''
          = Some (butlast (tl (snd (last ?ms))))"
    by (subst map_of_csrf_loop) (simp add: ms)
  then have hdr: "map_of (headers (update_cookie s)) ''X-CSRFTOKEN'' = Some (butlast (tl cv))"
    using l by (simp add: update_cookie_def)
  have later: "\<exists>new. exchanges (run E ops (update_cookie s)) = exchanges s @ new
                  \<and> list_all (\<lambda>x. map_of (rq_headers (fst x)) ''X-CSRFTOKEN''
                                     = Some (butlast (tl cv))) new"
    if "\<not> list_ex cookie_step ops" for ops
  proof -
    from run_csrf_kept[OF that, of "update_cookie s" E] hdr
    show ?thesis unfolding csrf_kept_def by (simp add: update_cookie_def)
  qed
  show ?thesis using l mem P hdr later by auto
qed

theorem update_cookie_csrf_header_witness:
  "(''ccsrftoken'', CHR 0x22 # ''abc'' @ [CHR 0x22])
     \<in> set (cookies (demo_state\<lparr>cookies := [(''ccsrftoken'', CHR 0x22 # ''abc'' @ [CHR 0x22])]\<rparr>))
   \<and> map_of (headers (update_cookie
          (demo_state\<lparr>cookies := [(''ccsrftoken'', CHR 0x22 # ''abc'' @ [CHR 0x22])]\<rparr>)))
        ''X-CSRFTOKEN'' = Some ''abc''"
  using update_cookie_csrf_header[of "''ccsrftoken''" "CHR 0x22 # ''abc'' @ [CHR 0x22]"
          "demo_state\<lparr>cookies := [(''ccsrftoken'', CHR 0x22 # ''abc'' @ [CHR 0x22])]\<rparr>" demo_env]
  by simp

section \<open>Identity keys\<close>

lemma check_session_ok:
  "logged s \<Longrightarrow> license_state s \<noteq> Some ''Invalid'' \<Longrightarrow> check_session s = (Inr (), s)"
  by (simp add: check_session_def)

lemma cmdb_url_ok:
  "logged s \<Longrightarrow> license_state s \<noteq> Some ''Invalid'' \<Longrightarrow> url_prefix s = Some p \<Longrightarrow>
   cmdb_url E path name vdom mkey s =
     (Inr (p @ ''/api/v2/cmdb/'' @ path @ ''/'' @ name
            @ (if truthy mkey then ''/'' @ quote [] (pystr E mkey) else []) @ vdom_suffix vdom), s)"
  by (simp add: cmdb_url_def bind_def check_session_def Let_def)

lemma mon_url_ok:
  "logged s \<Longrightarrow> license_state s \<noteq> Some ''Invalid'' \<Longrightarrow> url_prefix s = Some p \<Longrightarrow>
   mon_url E path name vdom mkey s =
     (Inr (p @ ''/api/v2/monitor/'' @ path @ ''/'' @ name
            @ (if truthy mkey then ''/'' @ quote [] (pystr E mkey) else []) @ vdom_suffix vdom), s)"
  by (simp add: mon_url_def bind_def check_session_def Let_def)

lemma demo_state_simps:
  "logged demo_state" "license_state demo_state = None" "url_prefix demo_state = Some ''https://fw''"
  "exchanges demo_state = []" "headers demo_state = []" "cookies demo_state = []"
  "move_parameters demo_state = []" "timeout demo_state = VInt 120"
  by (simp_all add: demo_state_def init_def)


lemma fst_schema_bare:
  "fst (schema bare_env ''system'' ''global'' None demo_state)
     = Inr (VDict [(KStr ''category'', VStr ''complex'')])"
  by (simp add: schema_def cmdb_url_ok[where p = "''https://fw''"] demo_state_simps bind_def ret_def
        lift_def send_def Let_def bare_env_def bare_server_def reply_def loads_def keq_def)

text \<open>
  C7. When the schema of an object type is a mapping without an \<^verbatim>\<open>mkey\<close> field,
  \<^verbatim>\<open>get_mkeyname\<close> returns \<^verbatim>\<open>False\<close>; for a schema that is a mapping it always
  returns a value and does not raise. \<^verbatim>\<open>get_mkey\<close> returns \<^verbatim>\<open>None\<close> when no key name
  was found, and when the key name is not a key of the data mapping; for a data mapping
  and a key name that can be a key it always returns a value. Absence of an identity is a
  value, not an error.
\<close>

theorem identity_absence_is_soft:
  "(schema E path name vdom s = (Inr (VDict sch), s') \<and> dict_get (KStr ''mkey'') sch = None
      \<longrightarrow> get_mkeyname E path name vdom s = (Inr (VBool False), s'))
   \<and> (schema E path name vdom s = (Inr (VDict sch), s')
      \<longrightarrow> (\<exists>kn. get_mkeyname E path name vdom s = (Inr kn, s')))
   \<and> (get_mkeyname E path name vdom s = (Inr keyname, s') \<and> \<not> truthy keyname
      \<longrightarrow> get_mkey E path name data vdom s = (Inr VNone, s'))
   \<and> (get_mkeyname E path name vdom s = (Inr keyname, s') \<and> to_key keyname = Some k
        \<and> dict_get k d = None
      \<longrightarrow> get_mkey E path name (VDict d) vdom s = (Inr VNone, s'))
   \<and> (get_mkeyname E path name vdom s = (Inr keyname, s') \<and> to_key keyname = Some k
      \<longrightarrow> (\<exists>v. get_mkey E path name (VDict d) vdom s = (Inr v, s')))"
proof (intro conjI impI)
  assume "schema E path name vdom s = (Inr (VDict sch), s') \<and> dict_get (KStr ''mkey'') sch = None"
  then show "get_mkeyname E path name vdom s = (Inr (VBool False), s')"
    by (simp add: get_mkeyname_def bind_def ret_def)
next
  assume "schema E path name vdom s = (Inr (VDict sch), s')"
  then show "\<exists>kn. get_mkeyname E path name vdom s = (Inr kn, s')"
    by (cases "dict_get (KStr ''mkey'') sch") (simp_all add: get_mkeyname_def bind_def ret_def)
next
  assume "get_mkeyname E path name vdom s = (Inr keyname, s') \<and> \<not> truthy keyname"
  then show "get_mkey E path name data vdom s = (Inr VNone, s')"
    by (simp add: get_mkey_def bind_def ret_def)
next
  assume "get_mkeyname E path name vdom s = (Inr keyname, s') \<and> to_key keyname = Some k
        \<and> dict_get k d = None"
  then show "get_mkey E path name (VDict d) vdom s = (Inr VNone, s')"
    by (simp add: get_mkey_def bind_def ret_def)
next
  assume "get_mkeyname E path name vdom s = (Inr keyname, s') \<and> to_key keyname = Some k"
  then show "\<exists>v. get_mkey E path name (VDict d) vdom s = (Inr v, s')"
    by (cases "dict_get k d") (simp_all add: get_mkey_def bind_def ret_def)
qed

theorem identity_absence_is_soft_witness:
  "get_mkeyname bare_env ''system'' ''global'' None demo_state
     = (Inr (VBool False), snd (schema bare_env ''system'' ''global'' None demo_state))
   \<and> get_mkey bare_env ''system'' ''global'' (VDict [(KStr ''hostname'', VStr ''fw1'')]) None demo_state
     = (Inr VNone, snd (schema bare_env ''system'' ''global'' None demo_state))"
proof -
  have sch: "schema bare_env ''system'' ''global'' None demo_state
     = (Inr (VDict [(KStr ''category'', VStr ''complex'')]),
        snd (schema bare_env ''system'' ''global'' None demo_state))"
    using fst_schema_bare by (metis prod.collapse)
  have nokey: "dict_get (KStr ''mkey'') [(KStr ''category'', VStr ''complex'')] = None"
    by (simp add: keq_def)
  have a: "get_mkeyname bare_env ''system'' ''global'' None demo_state
     = (Inr (VBool False), snd (schema bare_env ''system'' ''global'' None demo_state))"
    using identity_absence_is_soft[where E = bare_env and path = "''system''"
        and name = "''global''" and vdom = None and s = demo_state
        and sch = "[(KStr ''category'', VStr ''complex'')]"
        and s' = "snd (schema bare_env ''system'' ''global'' None demo_state)"] sch nokey
    by blast
  have "get_mkey bare_env ''system'' ''global'' (VDict [(KStr ''hostname'', VStr ''fw1'')]) None demo_state
     = (Inr VNone, snd (schema bare_env ''system'' ''global'' None demo_state))"
    using identity_absence_is_soft[where E = bare_env and path = "''system''"
        and name = "''global''" and vdom = None and s = demo_state
        and s' = "snd (schema bare_env ''system'' ''global'' None demo_state)"
        and keyname = "VBool False"
        and data = "VDict [(KStr ''hostname'', VStr ''fw1'')]"] a
    by simp
  with a show ?thesis by simp
qed

section \<open>Operations under an invalid license\<close>

lemma cmdb_url_invalid:
  "license_state s = Some ''Invalid'' \<Longrightarrow>
   cmdb_url E path name vdom mkey s = (Inl (if logged s then InvalidLicense else NotLogged), s)"
  by (simp add: cmdb_url_def bind_def check_session_def)

lemma mon_url_invalid:
  "license_state s = Some ''Invalid'' \<Longrightarrow>
   mon_url E path name vdom mkey s = (Inl (if logged s then InvalidLicense else NotLogged), s)"
  by (simp add: mon_url_def bind_def check_session_def)

lemma schema_invalid:
  "license_state s = Some ''Invalid'' \<Longrightarrow>
   schema E path name vdom s = (Inl (if logged s then InvalidLicense else NotLogged), s)"
  by (simp add: schema_def bind_def cmdb_url_invalid)

lemma get_mkeyname_invalid:
  "license_state s = Some ''Invalid'' \<Longrightarrow>
   get_mkeyname E path name vdom s = (Inl (if logged s then InvalidLicense else NotLogged), s)"
  by (simp add: get_mkeyname_def bind_def schema_invalid)

lemma get_mkey_invalid:
  "license_state s = Some ''Invalid'' \<Longrightarrow>
   get_mkey E path name data vdom s = (Inl (if logged s then InvalidLicense else NotLogged), s)"
  by (simp add: get_mkey_def bind_def get_mkeyname_invalid)

text \<open>
  C5, as the code has it. With the license state \<^verbatim>\<open>Invalid\<close>, \<^verbatim>\<open>formatresponse\<close> fails
  before it looks at the response, whatever the response is. The operations that
  normalize a response (get, monitor, post, execute, put, move, delete, set, license) do not
  get that far: they fail in \<^verbatim>\<open>check_session\<close>, before any request is sent, with
  \<^verbatim>\<open>InvalidLicense\<close> on a session that is logged in and with \<^verbatim>\<open>NotLogged\<close> on one
  that is not.
\<close>

theorem invalid_license_fails_first:
  assumes "license_state s = Some ''Invalid''"
  shows "(\<exists>e. \<forall>res vdom. formatresponse res vdom s = (Inl e, s))
    \<and> get E path name vdom mkey ps s = (Inl (if logged s then InvalidLicense else NotLogged), s)
    \<and> monitor E path name vdom mkey ps s = (Inl (if logged s then InvalidLicense else NotLogged), s)
    \<and> post E path name data vdom mkey ps s = (Inl (if logged s then InvalidLicense else NotLogged), s)
    \<and> execute E path name data vdom mkey ps s
         = (Inl (if logged s then InvalidLicense else NotLogged), s)
    \<and> put E path name vdom mkey ps data s = (Inl (if logged s then InvalidLicense else NotLogged), s)
    \<and> move E path name vdom mkey wh ref mps s
         = (Inl (if logged s then InvalidLicense else NotLogged), s)
    \<and> delete E path name vdom mkey ps data s
         = (Inl (if logged s then InvalidLicense else NotLogged), s)
    \<and> set_op E path name data mkey vdom ps s
         = (Inl (if logged s then InvalidLicense else NotLogged), s)
    \<and> license E lvdom s = (Inl (if logged s then InvalidLicense else NotLogged), s)"
proof (intro conjI)
  show "\<exists>e. \<forall>res vdom. formatresponse res vdom s = (Inl e, s)"
    using assms by (simp add: formatresponse_def)
  show "get E path name vdom mkey ps s = (Inl (if logged s then InvalidLicense else NotLogged), s)"
    using assms by (simp add: get_def bind_def cmdb_url_invalid)
  show "monitor E path name vdom mkey ps s
          = (Inl (if logged s then InvalidLicense else NotLogged), s)"
    using assms by (simp add: monitor_def bind_def mon_url_invalid)
  show "post E path name data vdom mkey ps s
          = (Inl (if logged s then InvalidLicense else NotLogged), s)"
    using assms by (simp add: post_def bind_def ret_def cmdb_url_invalid get_mkeyname_invalid)
  show "execute E path name data vdom mkey ps s
          = (Inl (if logged s then InvalidLicense else NotLogged), s)"
    using assms by (simp add: execute_def bind_def mon_url_invalid)
  show "put E path name vdom mkey ps data s
          = (Inl (if logged s then InvalidLicense else NotLogged), s)"
    using assms by (simp add: put_def bind_def ret_def cmdb_url_invalid get_mkey_invalid)
  show "move E path name vdom mkey wh ref mps s
          = (Inl (if logged s then InvalidLicense else NotLogged), s)"
    using assms by (simp add: move_def bind_def cmdb_url_invalid)
  show "delete E path name vdom mkey ps data s
          = (Inl (if logged s then InvalidLicense else NotLogged), s)"
    using assms by (simp add: delete_def bind_def ret_def cmdb_url_invalid get_mkey_invalid)
  show "set_op E path name data mkey vdom ps s
          = (Inl (if logged s then InvalidLicense else NotLogged), s)"
    using assms by (simp add: set_op_def bind_def ret_def cmdb_url_invalid get_mkey_invalid)
  show "license E lvdom s = (Inl (if logged s then InvalidLicense else NotLogged), s)"
    using assms by (simp add: license_def monitor_def bind_def mon_url_invalid)
qed

theorem invalid_license_fails_first_witness:
  "license_state (demo_state\<lparr>license_state := Some ''Invalid''\<rparr>) = Some ''Invalid''
   \<and> set_op demo_env ''system'' ''global'' (VDict []) VNone None VNone
        (demo_state\<lparr>license_state := Some ''Invalid''\<rparr>)
       = (Inl InvalidLicense, demo_state\<lparr>license_state := Some ''Invalid''\<rparr>)"
  using invalid_license_fails_first[of "demo_state\<lparr>license_state := Some ''Invalid''\<rparr>"
          demo_env "''system''" "''global''" None VNone VNone "VDict []"]
  by (simp add: demo_state_simps)

text \<open>
  C5 as stated fails: on a session that is not logged in, an operation fails with
  \<^verbatim>\<open>NotLogged\<close> although the license state is \<^verbatim>\<open>Invalid\<close>; and \<^verbatim>\<open>formatresponse\<close>
  itself raises a plain exception, not \<^verbatim>\<open>InvalidLicense\<close>.
\<close>

theorem invalid_license_counterexample:
  "fst (get demo_env ''system'' ''status'' None VNone VNone
          ((init [] [])\<lparr>license_state := Some ''Invalid''\<rparr>)) = Inl NotLogged
   \<and> fst (get demo_env ''system'' ''status'' None VNone VNone
          ((init [] [])\<lparr>license_state := Some ''Invalid''\<rparr>)) \<noteq> Inl InvalidLicense
   \<and> fst (formatresponse (Raw (reply 200 (VDict []))) None
          (demo_state\<lparr>license_state := Some ''Invalid''\<rparr>)) = Inl (PyException ''invalid license'')
   \<and> fst (formatresponse (Raw (reply 200 (VDict []))) None
          (demo_state\<lparr>license_state := Some ''Invalid''\<rparr>)) \<noteq> Inl InvalidLicense"
  by (simp add: get_def bind_def cmdb_url_def check_session_def init_def formatresponse_def)

section \<open>Login with a token\<close>

lemma formatresponse_ok:
  "license_state s \<noteq> Some ''Invalid'' \<Longrightarrow>
   formatresponse (Raw res) vdom s =
     (Inr (case decode_response res vdom of Inl e \<Rightarrow> Raw res | Inr v \<Rightarrow> Val v), s)"
  by (simp add: formatresponse_def split: sum.splits)

lemma formatresponse_val:
  "license_state s \<noteq> Some ''Invalid'' \<Longrightarrow> formatresponse (Val v) vdom s = (Inr (Val v), s)"
  by (simp add: formatresponse_def)

lemma send_Some:
  "server E (exchanges s) \<lparr>rq_verb = v, rq_url = url, rq_params = ps, rq_body = b,
       rq_files = fs, rq_timeout = timeout s, rq_headers = headers s\<rparr> = Some r \<Longrightarrow>
   send E v url ps b fs s =
     (Inr r, s\<lparr>exchanges := exchanges s @ [(\<lparr>rq_verb = v, rq_url = url, rq_params = ps,
                   rq_body = b, rq_files = fs, rq_timeout = timeout s, rq_headers = headers s\<rparr>, Some r)],
               cookies := fold (\<lambda>(n, v). AList.update n v) (set_cookies r) (cookies s)\<rparr>)"
  by (simp add: send_def Let_def)

lemma send_None:
  "server E (exchanges s) \<lparr>rq_verb = v, rq_url = url, rq_params = ps, rq_body = b,
       rq_files = fs, rq_timeout = timeout s, rq_headers = headers s\<rparr> = None \<Longrightarrow>
   send E v url ps b fs s =
     (Inl TransportError, s\<lparr>exchanges := exchanges s @ [(\<lparr>rq_verb = v, rq_url = url,
         rq_params = ps, rq_body = b, rq_files = fs, rq_timeout = timeout s,
         rq_headers = headers s\<rparr>, None)]\<rparr>)"
  by (simp add: send_def Let_def)

lemma snd_formatresponse [simp]: "snd (formatresponse r vdom s) = s"
  by (simp add: formatresponse_def split: pyobj.splits sum.splits)

lemma send_fields:
  "logged (snd (send E v url ps b fs s)) = logged s"
  "license_state (snd (send E v url ps b fs s)) = license_state s"
  "url_prefix (snd (send E v url ps b fs s)) = url_prefix s"
  "move_parameters (snd (send E v url ps b fs s)) = move_parameters s"
  "headers (snd (send E v url ps b fs s)) = headers s"
  "timeout (snd (send E v url ps b fs s)) = timeout s"
  by (simp_all add: send_def Let_def split: option.splits)

lemma snd_send_format:
  "snd (bind (send E v url ps b fs) (\<lambda>res. formatresponse (Raw res) vdom) s)
     = snd (send E v url ps b fs s)"
  by (cases "send E v url ps b fs s") (auto simp: bind_def split: sum.splits)

lemma send_exchanges:
  "exchanges (snd (send E v url ps b fs s)) =
     exchanges s @ [(\<lparr>rq_verb = v, rq_url = url, rq_params = ps, rq_body = b, rq_files = fs,
                      rq_timeout = timeout s, rq_headers = headers s\<rparr>,
                    server E (exchanges s) \<lparr>rq_verb = v, rq_url = url, rq_params = ps, rq_body = b,
                      rq_files = fs, rq_timeout = timeout s, rq_headers = headers s\<rparr>)]"
  by (simp add: send_def Let_def split: option.splits)

lemma tokenlogin_run:
  assumes "license_state s \<noteq> Some ''Invalid''"
  shows "\<exists>rq. rq_verb rq = GET
     \<and> rq_url rq = (if \<not> https_mode s then ''http://'' else ''https://'') @ h
                     @ ''/api/v2/cmdb/system/status'' @ vdom_suffix vd
     \<and> map_of (rq_headers rq) ''Authorization'' = Some (''Bearer '' @ tok)
     \<and> exchanges (snd (tokenlogin E h tok v c t vd s))
         = exchanges s @ [(rq, server E (exchanges s) rq)]
     \<and> logged (snd (tokenlogin E h tok v c t vd s))
     \<and> map_of (headers (snd (tokenlogin E h tok v c t vd s))) ''Authorization''
         = Some (''Bearer '' @ tok)
     \<and> (\<forall>res. server E (exchanges s) rq = Some res
              \<and> (\<forall>d. decode_response res vd \<noteq> Inr (VDict d))
            \<longrightarrow> fst (tokenlogin E h tok v c t vd s) = Inl NotLogged)
     \<and> (\<forall>res d ver. server E (exchanges s) rq = Some res
              \<and> decode_response res vd = Inr (VDict d)
              \<and> dict_get (KStr ''version'') d = Some ver
            \<longrightarrow> fst (tokenlogin E h tok v c t vd s) = Inr True
                \<and> fortiversion (snd (tokenlogin E h tok v c t vd s)) = ver)
     \<and> (\<forall>res d. server E (exchanges s) rq = Some res
              \<and> decode_response res vd = Inr (VDict d)
              \<and> dict_get (KStr ''version'') d = None
            \<longrightarrow> fst (tokenlogin E h tok v c t vd s) = Inl KeyError)"
proof -
  define p where "p = (if \<not> https_mode s then ''http://'' else ''https://'') @ h"
  define s0 where "s0 = s\<lparr>host := Some h,
      headers := AList.update ''Authorization'' (''Bearer '' @ tok) (headers s),
      logged := True, url_prefix := Some p, verify := v,
      session_cert := (if c \<noteq> VNone then c else session_cert s), timeout := t\<rparr>"
  define url where "url = p @ ''/api/v2/cmdb/system/status'' @ vdom_suffix vd"
  define rq where "rq = \<lparr>rq_verb = GET, rq_url = url, rq_params = VNone, rq_body = NoBody,
      rq_files = VNone, rq_timeout = t,
      rq_headers = AList.update ''Authorization'' (''Bearer '' @ tok) (headers s)\<rparr>"
  have tl: "tokenlogin E h tok v c t vd s
          = bind (get E ''system'' ''status'' vd VNone VNone) token_version s0"
    unfolding tokenlogin_def Let_def s0_def p_def by simp
  have s0: "logged s0" "license_state s0 \<noteq> Some ''Invalid''" "url_prefix s0 = Some p"
    "exchanges s0 = exchanges s" "timeout s0 = t"
    "headers s0 = AList.update ''Authorization'' (''Bearer '' @ tok) (headers s)"
    using assms by (simp_all add: s0_def)
  have g: "get E ''system'' ''status'' vd VNone VNone s0
         = bind (send E GET url VNone NoBody VNone) (\<lambda>res. formatresponse (Raw res) vd) s0"
    by (simp add: get_def bind_def cmdb_url_ok[OF s0(1,2,3)] url_def)
  have hdr: "map_of (AList.update ''Authorization'' (''Bearer '' @ tok) (headers s)) ''Authorization''
               = Some (''Bearer '' @ tok)"
    by (simp add: update_conv')
  show ?thesis
  proof (cases "server E (exchanges s) rq")
    case None
    then have sn: "send E GET url VNone NoBody VNone s0
        = (Inl TransportError, s0\<lparr>exchanges := exchanges s0 @ [(rq, None)]\<rparr>)"
      using send_None[of E s0 GET url VNone NoBody VNone] by (simp add: s0 rq_def)
    have "tokenlogin E h tok v c t vd s
        = (Inl TransportError, s0\<lparr>exchanges := exchanges s0 @ [(rq, None)]\<rparr>)"
      by (simp add: tl g bind_def sn)
    then show ?thesis
      using None hdr by (intro exI[of _ rq]) (simp add: rq_def url_def p_def s0)
  next
    case (Some res)
    define s1 where "s1 = s0\<lparr>exchanges := exchanges s0 @ [(rq, Some res)],
           cookies := fold (\<lambda>(n, v). AList.update n v) (set_cookies res) (cookies s0)\<rparr>"
    have sn: "send E GET url VNone NoBody VNone s0 = (Inr res, s1)"
      using Some send_Some[of E s0 GET url VNone NoBody VNone res] by (simp add: s0 rq_def s1_def)
    have s1: "license_state s1 \<noteq> Some ''Invalid''" "logged s1"
      "headers s1 = AList.update ''Authorization'' (''Bearer '' @ tok) (headers s)"
      "exchanges s1 = exchanges s @ [(rq, Some res)]"
      by (simp_all add: s1_def s0)
    have t2: "tokenlogin E h tok v c t vd s
        = token_version (case decode_response res vd of Inl e \<Rightarrow> Raw res | Inr v \<Rightarrow> Val v) s1"
      by (simp add: tl g bind_def sn formatresponse_ok[OF s1(1)])
    have st: "exchanges (snd (tokenlogin E h tok v c t vd s)) = exchanges s @ [(rq, Some res)]"
      "logged (snd (tokenlogin E h tok v c t vd s))"
      "headers (snd (tokenlogin E h tok v c t vd s))
         = AList.update ''Authorization'' (''Bearer '' @ tok) (headers s)"
      unfolding t2 token_version_def
      by (simp_all add: s1 split: sum.splits error.splits)
    have nl: "fst (tokenlogin E h tok v c t vd s) = Inl NotLogged"
      if "\<forall>d. decode_response res vd \<noteq> Inr (VDict d)"
    proof (cases "decode_response res vd")
      case (Inl e)
      then show ?thesis by (simp add: t2 token_version_def)
    next
      case (Inr j)
      with that have "\<forall>d. j \<noteq> VDict d" by simp
      then have "subscript j (VStr ''version'') = Inl TypeError" by (cases j) simp_all
      then show ?thesis using Inr by (simp add: t2 token_version_def)
    qed
    have ok: "fst (tokenlogin E h tok v c t vd s) = Inr True
                \<and> fortiversion (snd (tokenlogin E h tok v c t vd s)) = ver"
      if "decode_response res vd = Inr (VDict d)" "dict_get (KStr ''version'') d = Some ver"
      for d ver
      using that by (simp add: t2 token_version_def)
    have ke: "fst (tokenlogin E h tok v c t vd s) = Inl KeyError"
      if "decode_response res vd = Inr (VDict d)" "dict_get (KStr ''version'') d = None" for d
      using that by (simp add: t2 token_version_def)
    show ?thesis
      using Some hdr st nl ok ke
      by (intro exI[of _ rq]) (simp add: rq_def url_def p_def)
  qed
qed

text \<open>
  C6, as the code has it. \<^verbatim>\<open>tokenlogin\<close> puts the bearer token into the session's
  \<^verbatim>\<open>Authorization\<close> header and marks the session as logged in, then sends one request, a
  GET of \<^verbatim>\<open>system/status\<close> that carries the header. When the normalized answer is not a
  mapping (the raw response, or a decoded value that is no dictionary), \<^verbatim>\<open>tokenlogin\<close>
  fails with \<^verbatim>\<open>NotLogged\<close>; when it is a mapping with a \<^verbatim>\<open>version\<close>, that becomes the
  version of the session and \<^verbatim>\<open>tokenlogin\<close> returns \<^verbatim>\<open>True\<close>.
\<close>

theorem tokenlogin_probe:
  assumes "license_state s \<noteq> Some ''Invalid''"
  shows "\<exists>rq. rq_verb rq = GET
     \<and> rq_url rq = (if \<not> https_mode s then ''http://'' else ''https://'') @ h
                     @ ''/api/v2/cmdb/system/status'' @ vdom_suffix vd
     \<and> map_of (rq_headers rq) ''Authorization'' = Some (''Bearer '' @ tok)
     \<and> exchanges (snd (tokenlogin E h tok v c t vd s))
         = exchanges s @ [(rq, server E (exchanges s) rq)]
     \<and> logged (snd (tokenlogin E h tok v c t vd s))
     \<and> map_of (headers (snd (tokenlogin E h tok v c t vd s))) ''Authorization''
         = Some (''Bearer '' @ tok)
     \<and> (\<forall>res. server E (exchanges s) rq = Some res
              \<and> (\<forall>d. decode_response res vd \<noteq> Inr (VDict d))
            \<longrightarrow> fst (tokenlogin E h tok v c t vd s) = Inl NotLogged)
     \<and> (\<forall>res d ver. server E (exchanges s) rq = Some res
              \<and> decode_response res vd = Inr (VDict d)
              \<and> dict_get (KStr ''version'') d = Some ver
            \<longrightarrow> fst (tokenlogin E h tok v c t vd s) = Inr True
                \<and> fortiversion (snd (tokenlogin E h tok v c t vd s)) = ver)"
  using tokenlogin_run[OF assms, of h vd tok E v c t] by blast

lemma demo_server_GET:
  "rq_verb rq = GET \<Longrightarrow> server demo_env past rq =
     Some (reply 200 (VDict [(KStr ''http_status'', VInt 200), (KStr ''status'', VStr ''success''),
                  (KStr ''version'', VStr ''v7.0.1''),
                  (KStr ''results'', VDict [(KStr ''mkey'', VStr ''name'')])]))"
  by (simp add: demo_env_def demo_server_def)

lemma bare_server_any:
  "server bare_env past rq =
     Some (reply 200 (VDict [(KStr ''http_status'', VInt 200), (KStr ''status'', VStr ''success''),
             (KStr ''results'', VDict [(KStr ''category'', VStr ''complex'')])]))"
  by (simp add: bare_env_def bare_server_def)


theorem tokenlogin_probe_witness:
  "license_state (init [] []) \<noteq> Some ''Invalid''
   \<and> fst (tokenlogin demo_env ''fw'' ''tok'' (VBool True) VNone (VInt 12) (Some ''global'')
            (init [] [])) = Inl NotLogged
   \<and> fst (tokenlogin demo_env ''fw'' ''tok'' (VBool True) VNone (VInt 12) (Some ''root'')
            (init [] [])) = Inr True"
proof -
  have lic: "license_state (init [] []) \<noteq> Some ''Invalid''" by (simp add: init_def)
  let ?d = "[(KStr ''http_status'', VInt 200), (KStr ''status'', VStr ''success''),
                  (KStr ''version'', VStr ''v7.0.1''),
                  (KStr ''results'', VDict [(KStr ''mkey'', VStr ''name'')])]"
  have g: "\<forall>d. decode_response (reply 200 (VDict ?d)) (Some ''global'') \<noteq> Inr (VDict d)"
    by (simp add: decode_response_def reply_def keq_def)
  have r: "decode_response (reply 200 (VDict ?d)) (Some ''root'') = Inr (VDict ?d)"
    by (simp add: decode_response_def reply_def)
  have v: "dict_get (KStr ''version'') ?d = Some (VStr ''v7.0.1'')"
    by (simp add: keq_def)
  obtain rq where rq: "rq_verb rq = GET"
    and nl: "\<forall>res. server demo_env (exchanges (init [] [])) rq = Some res
              \<and> (\<forall>d. decode_response res (Some ''global'') \<noteq> Inr (VDict d))
            \<longrightarrow> fst (tokenlogin demo_env ''fw'' ''tok'' (VBool True) VNone (VInt 12)
                       (Some ''global'') (init [] [])) = Inl NotLogged"
    using tokenlogin_probe[OF lic, where h = "''fw''" and vd = "Some ''global''" and tok = "''tok''"
         and E = demo_env and v = "VBool True" and c = VNone and t = "VInt 12"]
    by blast
  have a: "fst (tokenlogin demo_env ''fw'' ''tok'' (VBool True) VNone (VInt 12) (Some ''global'')
            (init [] [])) = Inl NotLogged"
    using nl demo_server_GET[OF rq] g by simp
  obtain rq' where rq': "rq_verb rq' = GET"
    and ok: "\<forall>res d ver. server demo_env (exchanges (init [] [])) rq' = Some res
              \<and> decode_response res (Some ''root'') = Inr (VDict d)
              \<and> dict_get (KStr ''version'') d = Some ver
            \<longrightarrow> fst (tokenlogin demo_env ''fw'' ''tok'' (VBool True) VNone (VInt 12)
                       (Some ''root'') (init [] [])) = Inr True
                \<and> fortiversion (snd (tokenlogin demo_env ''fw'' ''tok'' (VBool True) VNone
                       (VInt 12) (Some ''root'') (init [] []))) = ver"
    using tokenlogin_probe[OF lic, where h = "''fw''" and vd = "Some ''root''" and tok = "''tok''"
         and E = demo_env and v = "VBool True" and c = VNone and t = "VInt 12"]
    by blast
  have b: "fst (tokenlogin demo_env ''fw'' ''tok'' (VBool True) VNone (VInt 12) (Some ''root'')
            (init [] [])) = Inr True"
    using ok demo_server_GET[OF rq'] r v by blast
  from lic a b show ?thesis by simp
qed

text \<open>
  C6 as stated fails: an answer that is a mapping without a \<^verbatim>\<open>version\<close> field carries
  no version, and \<^verbatim>\<open>tokenlogin\<close> then fails with \<^verbatim>\<open>KeyError\<close>, which it does not catch.
\<close>

theorem tokenlogin_counterexample:
  "fst (tokenlogin bare_env ''fw'' ''tok'' (VBool True) VNone (VInt 12) (Some ''root'')
          (init [] [])) = Inl KeyError
   \<and> fst (tokenlogin bare_env ''fw'' ''tok'' (VBool True) VNone (VInt 12) (Some ''root'')
          (init [] [])) \<noteq> Inl NotLogged"
proof -
  have lic: "license_state (init [] []) \<noteq> Some ''Invalid''" by (simp add: init_def)
  let ?d = "[(KStr ''http_status'', VInt 200), (KStr ''status'', VStr ''success''),
             (KStr ''results'', VDict [(KStr ''category'', VStr ''complex'')])]"
  have r: "decode_response (reply 200 (VDict ?d)) (Some ''root'') = Inr (VDict ?d)"
    by (simp add: decode_response_def reply_def)
  have v: "dict_get (KStr ''version'') ?d = None"
    by (simp add: keq_def)
  obtain rq where
     ke: "\<forall>res d. server bare_env (exchanges (init [] [])) rq = Some res
              \<and> decode_response res (Some ''root'') = Inr (VDict d)
              \<and> dict_get (KStr ''version'') d = None
            \<longrightarrow> fst (tokenlogin bare_env ''fw'' ''tok'' (VBool True) VNone (VInt 12)
                       (Some ''root'') (init [] [])) = Inl KeyError"
    using tokenlogin_run[OF lic, where h = "''fw''" and vd = "Some ''root''" and tok = "''tok''"
         and E = bare_env and v = "VBool True" and c = VNone and t = "VInt 12"]
    by blast
  have "fst (tokenlogin bare_env ''fw'' ''tok'' (VBool True) VNone (VInt 12) (Some ''root'')
          (init [] [])) = Inl KeyError"
    using ke bare_server_any r v by blast
  then show ?thesis by simp
qed

section \<open>Create\<close>

lemma keq_refl [simp]: "keq k k"
  by (simp add: keq_def)

lemma keq_sym: "keq a b = keq b a"
  by (auto simp: keq_def)

lemma keq_trans: "keq a b \<Longrightarrow> keq b c \<Longrightarrow> keq a c"
  by (simp add: keq_def)

lemma dict_get_set: "dict_get k (dict_set k v d) = Some v"
  by (induction d) (auto simp: keq_sym)

lemma dict_get_set_other: "\<not> keq k k' \<Longrightarrow> dict_get k' (dict_set k v d) = dict_get k' d"
  by (induction d) (auto simp: keq_def)













section \<open>Move and its default parameters\<close>

lemma move_default:
  assumes "logged s" "license_state s \<noteq> Some ''Invalid''" "url_prefix s = Some p"
    and "to_key wh = Some k"
  shows "\<exists>rq. rq_verb rq = PUT
     \<and> rq_params rq = VDict (dict_set k (VStr (pystr E ref))
                          (dict_set (KStr ''action'') (VStr ''move'') (move_parameters s)))
     \<and> exchanges (snd (move E path name vdom mkey wh ref None s))
         = exchanges s @ [(rq, server E (exchanges s) rq)]
     \<and> move_parameters (snd (move E path name vdom mkey wh ref None s))
         = dict_set k (VStr (pystr E ref))
             (dict_set (KStr ''action'') (VStr ''move'') (move_parameters s))
     \<and> logged (snd (move E path name vdom mkey wh ref None s))
     \<and> license_state (snd (move E path name vdom mkey wh ref None s)) = license_state s
     \<and> url_prefix (snd (move E path name vdom mkey wh ref None s)) = Some p"
proof -
  define d2 where "d2 = dict_set k (VStr (pystr E ref))
                          (dict_set (KStr ''action'') (VStr ''move'') (move_parameters s))"
  define url where "url = p @ ''/api/v2/cmdb/'' @ path @ ''/'' @ name
            @ (if truthy mkey then ''/'' @ quote [] (pystr E mkey) else []) @ vdom_suffix vdom"
  define s2 where "s2 = s\<lparr>move_parameters := d2\<rparr>"
  define rq where "rq = \<lparr>rq_verb = PUT, rq_url = url, rq_params = VDict d2, rq_body = NoBody,
      rq_files = VNone, rq_timeout = timeout s, rq_headers = headers s\<rparr>"
  have m: "move E path name vdom mkey wh ref None s
      = bind (send E PUT url (VDict d2) NoBody VNone) (\<lambda>res. formatresponse (Raw res) vdom) s2"
    using assms(4)
    by (simp add: move_def bind_def cmdb_url_ok[OF assms(1,2,3)] Let_def url_def d2_def s2_def)
  have sn: "snd (move E path name vdom mkey wh ref None s)
      = snd (send E PUT url (VDict d2) NoBody VNone s2)"
    by (simp add: m snd_send_format)
  have "exchanges (snd (move E path name vdom mkey wh ref None s))
         = exchanges s @ [(rq, server E (exchanges s) rq)]"
    unfolding sn using send_exchanges[of E PUT url "VDict d2" NoBody VNone s2]
    by (simp add: s2_def rq_def)
  then show ?thesis
    using assms(1,2,3)
    by (intro exI[of _ rq]) (simp add: sn send_fields rq_def s2_def d2_def)
qed

text \<open>
  C10. The \<^verbatim>\<open>parameters\<close> argument of \<^verbatim>\<open>move\<close> has one dictionary object as its
  default, and a call that leaves the argument out writes \<^verbatim>\<open>action = move\<close> and the
  entry for its \<^verbatim>\<open>where\<close> key into that object. So of two such calls in a row (on a
  session that is logged in), the second sends the entries of the first as well: the
  parameters of its request are the default object after both calls' writes, and the
  first call's \<^verbatim>\<open>where\<close> entry is still in them when the second call uses another key.
\<close>

theorem move_default_parameters_shared:
  assumes "logged s" "license_state s \<noteq> Some ''Invalid''" "url_prefix s = Some p"
    and "to_key wh1 = Some k1" "to_key wh2 = Some k2"
  shows "\<exists>rq ps.
       exchanges (snd (move E path2 name2 vdom2 mkey2 wh2 ref2 None
                         (snd (move E path1 name1 vdom1 mkey1 wh1 ref1 None s))))
         = exchanges (snd (move E path1 name1 vdom1 mkey1 wh1 ref1 None s))
           @ [(rq, server E (exchanges (snd (move E path1 name1 vdom1 mkey1 wh1 ref1 None s))) rq)]
     \<and> rq_verb rq = PUT
     \<and> rq_params rq = VDict ps
     \<and> ps = dict_set k2 (VStr (pystr E ref2))
              (dict_set (KStr ''action'') (VStr ''move'')
                (dict_set k1 (VStr (pystr E ref1))
                  (dict_set (KStr ''action'') (VStr ''move'') (move_parameters s))))
     \<and> dict_get k2 ps = Some (VStr (pystr E ref2))
     \<and> (\<not> keq k2 (KStr ''action'') \<longrightarrow> dict_get (KStr ''action'') ps = Some (VStr ''move''))
     \<and> (\<not> keq k1 k2 \<and> \<not> keq k1 (KStr ''action'')
          \<longrightarrow> dict_get k1 ps = Some (VStr (pystr E ref1)))"
proof -
  define s1 where "s1 = snd (move E path1 name1 vdom1 mkey1 wh1 ref1 None s)"
  from move_default[OF assms(1,2,3,4), of E ref1 path1 name1 vdom1 mkey1]
  have s1: "logged s1" "license_state s1 \<noteq> Some ''Invalid''" "url_prefix s1 = Some p"
    and mp: "move_parameters s1 = dict_set k1 (VStr (pystr E ref1))
             (dict_set (KStr ''action'') (VStr ''move'') (move_parameters s))"
    using assms(2) unfolding s1_def by auto
  from move_default[OF s1 assms(5), of E ref2 path2 name2 vdom2 mkey2]
  obtain rq where rq: "rq_verb rq = PUT"
    "rq_params rq = VDict (dict_set k2 (VStr (pystr E ref2))
                          (dict_set (KStr ''action'') (VStr ''move'') (move_parameters s1)))"
    "exchanges (snd (move E path2 name2 vdom2 mkey2 wh2 ref2 None s1))
         = exchanges s1 @ [(rq, server E (exchanges s1) rq)]"
    by blast
  define ps where "ps = dict_set k2 (VStr (pystr E ref2))
              (dict_set (KStr ''action'') (VStr ''move'')
                (dict_set k1 (VStr (pystr E ref1))
                  (dict_set (KStr ''action'') (VStr ''move'') (move_parameters s))))"
  have a: "dict_get k2 ps = Some (VStr (pystr E ref2))"
    by (simp add: ps_def dict_get_set)
  have b: "dict_get (KStr ''action'') ps = Some (VStr ''move'')" if "\<not> keq k2 (KStr ''action'')"
    using that by (simp add: ps_def dict_get_set dict_get_set_other)
  have c: "dict_get k1 ps = Some (VStr (pystr E ref1))"
    if "\<not> keq k1 k2" "\<not> keq k1 (KStr ''action'')"
    using that by (simp add: ps_def dict_get_set dict_get_set_other keq_sym)
  show ?thesis
    using rq a b c unfolding s1_def[symmetric] mp ps_def[symmetric]
    by (intro exI[of _ rq] exI[of _ ps]) simp
qed

theorem move_default_parameters_shared_witness:
  "logged demo_state \<and> license_state demo_state \<noteq> Some ''Invalid''
   \<and> url_prefix demo_state = Some ''https://fw''
   \<and> (\<exists>rq. exchanges (snd (move demo_env ''firewall'' ''policy'' None (VInt 7) (VStr ''after'')
                     (VInt 3) None
                     (snd (move demo_env ''firewall'' ''policy'' None (VInt 5) (VStr ''before'')
                        (VInt 2) None demo_state))))
         = exchanges (snd (move demo_env ''firewall'' ''policy'' None (VInt 5) (VStr ''before'')
                        (VInt 2) None demo_state))
           @ [(rq, server demo_env (exchanges (snd (move demo_env ''firewall'' ''policy'' None
                     (VInt 5) (VStr ''before'') (VInt 2) None demo_state))) rq)]
       \<and> rq_params rq = VDict [(KStr ''action'', VStr ''move''), (KStr ''before'', VStr ''2''),
                                 (KStr ''after'', VStr ''3'')])"
  using move_default_parameters_shared[of demo_state "''https://fw''" "VStr ''before''"
          "KStr ''before''" "VStr ''after''" "KStr ''after''" demo_env "''firewall''" "''policy''"
          None "VInt 7" "VInt 3" "''firewall''" "''policy''" None "VInt 5" "VInt 2"]
  by (auto simp: demo_state_simps keq_def str_int_def str_nat.simps digit_char_def)

section \<open>Set: update, then create\<close>















section \<open>Applying a tree: the passes and the result\<close>



















section \<open>Applying a tree: the split\<close>

text \<open>
  C2 fails on the code. For a field that is not a mapping, the first loop nest deletes
  the whole path from the table tree (\<^verbatim>\<open>del yamltreel3[name][path]\<close>), not the field. A
  path with two such fields makes \<^verbatim>\<open>setoverlayconfig\<close> raise \<^verbatim>\<open>KeyError\<close> before any
  request is sent; a path with one such field and a table row loses the row from the
  table tree, so the second pass never applies it.
\<close>

theorem overlay_split_deletes_whole_path:
  "setoverlayconfig E
       [(''system'', [(''global'', [(KStr ''hostname'', VStr ''fw1''),
                                    (KStr ''timezone'', VStr ''04'')])])] vdom s
     = (Inl KeyError, s)
   \<and> split_names [''firewall'']
       ([(''firewall'', [(''policy'', [(KStr ''status'', VStr ''enable''),
                                       (KInt 1, VDict [(KStr ''name'', VStr ''p1'')])])])],
        [(''firewall'', [(''policy'', [(KStr ''status'', VStr ''enable''),
                                       (KInt 1, VDict [(KStr ''name'', VStr ''p1'')])])])])
     = Inr ([(''firewall'', [(''policy'', [(KStr ''status'', VStr ''enable'')])])],
            [(''firewall'', [])])
   \<and> table_names E vdom [(''firewall'', [])] restree s = (Inr restree, s)"
  by (simp add: setoverlayconfig_def tree_get_def tree_del_field_def tree_del_path_def
        keq_def AList.delete_eq)

end
